theory Spec2Isabelle
  imports Main
begin

section \<open>Strings of the source language\<close>

text \<open>
  A JavaScript string is modelled as a \<^typ>\<open>string\<close> whose characters are the code units
  0..255 (the Latin-1 range). On that range the library functions used by the service
  (\<open>trim\<close>, \<open>toLowerCase\<close>, \<open>includes\<close>, \<open>startsWith\<close>, \<open>replace\<close> and the regular
  expressions) are modelled below as they behave in ECMAScript.
\<close>

type_synonym jsstring = string

definition truthy :: "jsstring \<Rightarrow> bool" where
  \<comment> \<open>a string is falsy exactly when it is empty\<close>
  "truthy s = (s \<noteq> [])"

definition truthyOpt :: "jsstring option \<Rightarrow> bool" where
  \<comment> \<open>\<open>undefined\<close>, \<open>null\<close> and the empty string are falsy\<close>
  "truthyOpt s = (case s of None \<Rightarrow> False | Some x \<Rightarrow> truthy x)"

definition isWhiteSpace :: "char \<Rightarrow> bool" where
  \<comment> \<open>WhiteSpace and LineTerminator below U+0100: TAB, LF, VT, FF, CR, SP, NBSP\<close>
  "isWhiteSpace c = ((of_char c :: nat) \<in> {9, 10, 11, 12, 13, 32, 160})"

definition isLineTerminator :: "char \<Rightarrow> bool" where
  \<comment> \<open>the characters that \<open>.\<close> does not match, below U+0100: LF and CR\<close>
  "isLineTerminator c = ((of_char c :: nat) \<in> {10, 13})"

definition isWordChar :: "char \<Rightarrow> bool" where
  \<comment> \<open>\<open>\w\<close> is \<open>[A-Za-z0-9_]\<close>\<close>
  "isWordChar c = (let n = (of_char c :: nat) in
     (48 \<le> n \<and> n \<le> 57) \<or> (65 \<le> n \<and> n \<le> 90) \<or> n = 95 \<or> (97 \<le> n \<and> n \<le> 122))"

definition trim :: "jsstring \<Rightarrow> jsstring" where
  "trim s = rev (dropWhile isWhiteSpace (rev (dropWhile isWhiteSpace s)))"

fun startsWith :: "jsstring \<Rightarrow> jsstring \<Rightarrow> bool" where
  \<comment> \<open>\<open>startsWith s p\<close> is \<open>s.startsWith(p)\<close>\<close>
  "startsWith s [] = True"
| "startsWith [] (p # ps) = False"
| "startsWith (c # cs) (p # ps) = (c = p \<and> startsWith cs ps)"

fun includesStr :: "jsstring \<Rightarrow> jsstring \<Rightarrow> bool" where
  \<comment> \<open>\<open>includesStr s p\<close> is \<open>s.includes(p)\<close>\<close>
  "includesStr [] p = (p = [])"
| "includesStr (c # cs) p = (startsWith (c # cs) p \<or> includesStr cs p)"

definition lowerChar :: "char \<Rightarrow> char" where
  \<comment> \<open>A-Z and the Latin-1 capitals U+00C0..U+00DE (without U+00D7) move up by 32\<close>
  "lowerChar c = (let n = (of_char c :: nat) in
     if (65 \<le> n \<and> n \<le> 90) \<or> (192 \<le> n \<and> n \<le> 222 \<and> n \<noteq> 215)
     then char_of (n + 32) else c)"

definition toLowerCase :: "jsstring \<Rightarrow> jsstring" where
  "toLowerCase s = map lowerChar s"

subsection \<open>The data-URL expressions\<close>

text \<open>
  \<^verbatim>\<open>dataUrl.match(/^data:(.*);base64,/)\<close>: after the literal \<open>data:\<close> the greedy \<open>.*\<close> takes
  characters that are not line terminators, and gives them back one at a time until the
  literal \<open>;base64,\<close> follows. \<open>greedyDotThen lit acc s\<close> is that search; it returns the text
  captured by the group.
\<close>

fun greedyDotThen :: "jsstring \<Rightarrow> jsstring \<Rightarrow> jsstring \<Rightarrow> jsstring option" where
  "greedyDotThen lit acc [] = (if startsWith [] lit then Some acc else None)"
| "greedyDotThen lit acc (c # cs) =
     (if isLineTerminator c
      then (if startsWith (c # cs) lit then Some acc else None)
      else (case greedyDotThen lit (acc @ [c]) cs of
              Some r \<Rightarrow> Some r
            | None \<Rightarrow> (if startsWith (c # cs) lit then Some acc else None)))"

definition getMimeType :: "jsstring \<Rightarrow> jsstring" where
  "getMimeType dataUrl =
     (case (if startsWith dataUrl ''data:''
            then greedyDotThen '';base64,'' [] (drop 5 dataUrl) else None) of
        Some m \<Rightarrow> m
      | None \<Rightarrow> ''image/jpeg'')"

text \<open>
  \<^verbatim>\<open>s.replace(/^data:image\/\w+;base64,/, "")\<close>: the expression is anchored, \<open>\w+\<close> takes the
  longest run of word characters (giving some back cannot help, the next character would
  be a word character and not \<open>;\<close>), and the matched prefix is removed. A string that does
  not match is returned as it is.
\<close>

definition stripDataImagePrefix :: "jsstring \<Rightarrow> jsstring" where
  "stripDataImagePrefix s =
     (if startsWith s ''data:image/''
      then (let r = drop 11 s; w = takeWhile isWordChar r; rest = dropWhile isWordChar r
            in if w \<noteq> [] \<and> startsWith rest '';base64,'' then drop 8 rest else s)
      else s)"

section \<open>Messages and turns\<close>

datatype Role = User | Model

text \<open>The interface \<open>Message\<close> of \<open>types.ts\<close>; the optional fields are options.\<close>

record Message =
  m_id :: jsstring
  m_role :: Role
  m_text :: jsstring
  m_image :: "jsstring option"
  m_isError :: "bool option"
  m_isImageLoading :: "bool option"

text \<open>
  A content part of a turn: \<open>{ inlineData: { mimeType, data } }\<close>, with the MIME type
  first and the data second, or \<open>{ text }\<close>.
\<close>

datatype Part = InlineData jsstring jsstring | TextPart jsstring

record Turn =
  role :: Role
  parts :: "Part list"

definition flagSet :: "bool option \<Rightarrow> bool" where
  \<comment> \<open>truthiness of an optional boolean field\<close>
  "flagSet b = (b = Some True)"

section \<open>History reconciliation (startChatWithHistory)\<close>

definition imageParts :: "jsstring option \<Rightarrow> Part list" where
  \<comment> \<open>the \<open>if (h.image) { ... }\<close> block of the user branch\<close>
  "imageParts img =
     (case img of
        None \<Rightarrow> []
      | Some i \<Rightarrow>
          if truthy i \<and> startsWith i ''data:''
          then (let mt = getMimeType i; d = stripDataImagePrefix i
                in if truthy d \<and> truthy mt then [InlineData mt d] else [])
          else [])"

definition userParts :: "Message \<Rightarrow> Part list" where
  "userParts h =
     imageParts (m_image h) @
     (if truthy (m_text h) \<and> trim (m_text h) \<noteq> [] then [TextPart (m_text h)] else [])"

definition modelParts :: "Message \<Rightarrow> Part list" where
  \<comment> \<open>\<open>[{ text: h.text || "..." }]\<close>\<close>
  "modelParts h = [TextPart (if truthy (m_text h) then m_text h else ''...'')]"

fun flatten :: "Message list \<Rightarrow> Turn list \<Rightarrow> Turn list" where
  \<comment> \<open>the first loop; the second argument is \<open>geminiHistory\<close>\<close>
  "flatten [] geminiHistory = geminiHistory"
| "flatten (h # hs) geminiHistory =
     (if flagSet (m_isError h) then flatten hs geminiHistory
      else (case m_role h of
              User \<Rightarrow>
                (let ps = userParts h
                 in if length ps > 0
                    then flatten hs (geminiHistory @ [\<lparr>role = User, parts = ps\<rparr>])
                    else flatten hs geminiHistory)
            | Model \<Rightarrow>
                flatten hs (geminiHistory @ [\<lparr>role = Model, parts = modelParts h\<rparr>])))"

fun mergeLoop :: "Turn \<Rightarrow> Turn list \<Rightarrow> Turn list \<Rightarrow> Turn list" where
  \<comment> \<open>the loop of the merge pass: \<open>currentTurn\<close>, the turns from index \<open>i\<close> on, \<open>mergedHistory\<close>\<close>
  "mergeLoop currentTurn [] mergedHistory = mergedHistory @ [currentTurn]"
| "mergeLoop currentTurn (nextTurn # rest) mergedHistory =
     (if role nextTurn = role currentTurn
      then mergeLoop (currentTurn\<lparr>parts := parts currentTurn @ parts nextTurn\<rparr>) rest mergedHistory
      else mergeLoop nextTurn rest (mergedHistory @ [currentTurn]))"

definition mergePass :: "Turn list \<Rightarrow> Turn list" where
  "mergePass geminiHistory =
     (case geminiHistory of [] \<Rightarrow> [] | t # ts \<Rightarrow> mergeLoop t ts [])"

fun shiftLeadingModel :: "Turn list \<Rightarrow> Turn list" where
  \<comment> \<open>\<open>while (length > 0 && mergedHistory[0].role === 'model') mergedHistory.shift()\<close>\<close>
  "shiftLeadingModel [] = []"
| "shiftLeadingModel (t # ts) = (if role t = Model then shiftLeadingModel ts else t # ts)"

definition dummyModelTurn :: Turn where
  "dummyModelTurn = \<lparr>role = Model, parts = [TextPart ''...'']\<rparr>"

definition closeTrailingUser :: "Turn list \<Rightarrow> Turn list" where
  \<comment> \<open>a trailing user turn is followed by a dummy model turn\<close>
  "closeTrailingUser mergedHistory =
     (if length mergedHistory > 0 \<and> role (last mergedHistory) = User
      then mergedHistory @ [dummyModelTurn] else mergedHistory)"

definition reconcileTurns :: "Message list \<Rightarrow> Turn list" where
  \<comment> \<open>the passes between the emptiness test and the call of \<open>initializeChat\<close>\<close>
  "reconcileTurns history =
     closeTrailingUser (shiftLeadingModel (mergePass (flatten history [])))"

definition reconcile :: "Message list \<Rightarrow> Turn list" where
  \<comment> \<open>the history that \<open>startChatWithHistory\<close> hands to \<open>initializeChat\<close> first\<close>
  "reconcile history = (if length history = 0 then [] else reconcileTurns history)"

text \<open>
  The vocabulary of the reconciliation properties: the parts an entry produces, the turn
  of an entry, and a log that already alternates between user and model entries.
\<close>

definition entryParts :: "Message \<Rightarrow> Part list" where
  "entryParts h = (case m_role h of User \<Rightarrow> userParts h | Model \<Rightarrow> modelParts h)"

definition entryTurn :: "Message \<Rightarrow> Turn" where
  "entryTurn h = \<lparr>role = m_role h, parts = entryParts h\<rparr>"

fun alternating :: "Message list \<Rightarrow> bool" where
  "alternating [] = True"
| "alternating [h] = True"
| "alternating (h # h' # hs) = (m_role h \<noteq> m_role h' \<and> alternating (h' # hs))"

definition producesParts :: "Message \<Rightarrow> bool" where
  \<comment> \<open>not flagged as an error, and at least one part comes out of the entry\<close>
  "producesParts h = (\<not> flagSet (m_isError h) \<and> entryParts h \<noteq> [])"

definition validLog :: "Message list \<Rightarrow> bool" where
  "validLog history =
     (history \<noteq> [] \<and> m_role (hd history) = User \<and> m_role (last history) = Model \<and>
      alternating history \<and> list_all producesParts history)"

section \<open>The trigger marker in a reply\<close>

text \<open>
  \<^verbatim>\<open>/\[SELFIE(?::\s*(.*?))?\]/\<close>, read from the right. \<open>lazyDotThenBracket acc s\<close> is
  \<open>(.*?)\]\<close>: the lazy \<open>.*?\<close> first tries to stop, and otherwise takes one more character
  that is not a line terminator; it returns the captured text and the text after the
  bracket. \<open>spacesThenLazy\<close> puts the greedy \<open>\s*\<close> in front: it takes a white-space
  character when there is one and comes back to the shorter run when the rest fails.
\<close>

fun lazyDotThenBracket :: "jsstring \<Rightarrow> jsstring \<Rightarrow> (jsstring \<times> jsstring) option" where
  "lazyDotThenBracket acc [] = None"
| "lazyDotThenBracket acc (c # cs) =
     (if c = CHR '']'' then Some (acc, cs)
      else if isLineTerminator c then None
      else lazyDotThenBracket (acc @ [c]) cs)"

fun spacesThenLazy :: "jsstring \<Rightarrow> (jsstring \<times> jsstring) option" where
  "spacesThenLazy [] = lazyDotThenBracket [] []"
| "spacesThenLazy (c # cs) =
     (if isWhiteSpace c
      then (case spacesThenLazy cs of
              Some r \<Rightarrow> Some r
            | None \<Rightarrow> lazyDotThenBracket [] (c # cs))
      else lazyDotThenBracket [] (c # cs))"

definition closingBracket :: "jsstring \<Rightarrow> (jsstring option \<times> jsstring) option" where
  \<comment> \<open>the optional group left out: the bracket follows at once, nothing is captured\<close>
  "closingBracket s =
     (case s of [] \<Rightarrow> None | c # cs \<Rightarrow> if c = CHR '']'' then Some (None, cs) else None)"

definition matchSelfieAt :: "jsstring \<Rightarrow> (jsstring option \<times> jsstring) option" where
  \<comment> \<open>a match that starts at the first character: the captured group and the rest\<close>
  "matchSelfieAt s =
     (if startsWith s ''[SELFIE''
      then (case drop 7 s of
              [] \<Rightarrow> closingBracket []
            | c # cs \<Rightarrow>
                if c = CHR '':''
                then (case spacesThenLazy cs of
                        Some (cap, rest) \<Rightarrow> Some (Some cap, rest)
                      | None \<Rightarrow> closingBracket (c # cs))
                else closingBracket (c # cs))
      else None)"

fun selfieMatch :: "jsstring \<Rightarrow> jsstring option option" where
  \<comment> \<open>\<open>replyText.match(...)\<close>: the leftmost match; the result is its group 1\<close>
  "selfieMatch [] = None"
| "selfieMatch (c # cs) =
     (case matchSelfieAt (c # cs) of
        Some (cap, rest) \<Rightarrow> Some cap
      | None \<Rightarrow> selfieMatch cs)"

lemma lazyDotThenBracket_shorter:
  "lazyDotThenBracket acc s = Some (cap, rest) \<Longrightarrow> length rest < length s"
  by (induction acc s rule: lazyDotThenBracket.induct) (auto split: if_splits)

lemma spacesThenLazy_shorter:
  "spacesThenLazy s = Some (cap, rest) \<Longrightarrow> length rest < length s"
  by (induction s arbitrary: cap rest)
     (auto split: if_splits option.splits dest!: lazyDotThenBracket_shorter)

lemma closingBracket_shorter:
  "closingBracket s = Some (cap, rest) \<Longrightarrow> length rest < length s"
  by (auto simp: closingBracket_def split: list.splits if_splits)

lemma matchSelfieAt_shorter:
  assumes "matchSelfieAt s = Some (cap, rest)"
  shows "length rest < length s"
proof -
  from assms have sw: "startsWith s ''[SELFIE''"
    by (auto simp: matchSelfieAt_def split: if_splits)
  show ?thesis
  proof (cases "drop 7 s")
    case Nil
    with assms sw show ?thesis by (simp add: matchSelfieAt_def closingBracket_def)
  next
    case (Cons c cs)
    then have len: "length s = 7 + length (c # cs)"
      by (metis add.commute drop_eq_Nil le_add_diff_inverse2 length_drop list.distinct(1)
          not_le_imp_less less_imp_le_nat)
    have "length rest < length (c # cs)"
    proof (cases "c = CHR '':''")
      case True
      show ?thesis
      proof (cases "spacesThenLazy cs")
        case None
        with assms sw Cons True have "closingBracket (c # cs) = Some (cap, rest)"
          by (simp add: matchSelfieAt_def)
        then show ?thesis by (rule closingBracket_shorter)
      next
        case (Some r)
        obtain cap' rest' where r: "r = (cap', rest')" by (cases r)
        with assms sw Cons True Some have "rest = rest'"
          by (simp add: matchSelfieAt_def)
        moreover have "length rest' < length cs"
          using Some r by (auto dest: spacesThenLazy_shorter)
        ultimately show ?thesis by simp
      qed
    next
      case False
      with assms sw Cons have "closingBracket (c # cs) = Some (cap, rest)"
        by (simp add: matchSelfieAt_def)
      then show ?thesis by (rule closingBracket_shorter)
    qed
    with len show ?thesis by simp
  qed
qed

text \<open>
  \<^verbatim>\<open>replyText.replace(/\[SELFIE(?::\s*.*?)?\]/g, "")\<close>: the same expression without the
  group, applied from left to right; each match is removed and the search goes on after it.
\<close>

function removeSelfieTags :: "jsstring \<Rightarrow> jsstring" where
  "removeSelfieTags [] = []"
| "removeSelfieTags (c # cs) =
     (case matchSelfieAt (c # cs) of
        Some (cap, rest) \<Rightarrow> removeSelfieTags rest
      | None \<Rightarrow> c # removeSelfieTags cs)"
  by pat_completeness auto
termination
  by (relation "measure length") (auto dest: matchSelfieAt_shorter)

text \<open>The value returned to the caller of \<open>sendMessageToEve\<close>.\<close>

record Reply =
  r_text :: jsstring
  r_image :: "jsstring option"
  r_visualPrompt :: "jsstring option"
  r_isError :: "bool option"
  r_errorMessage :: "jsstring option"

definition endpointMissing :: "jsstring option \<Rightarrow> bool" where
  \<comment> \<open>\<open>!gradioEndpoint || gradioEndpoint.trim() === ''\<close>\<close>
  "endpointMissing endpoint =
     (case endpoint of None \<Rightarrow> True | Some e \<Rightarrow> \<not> truthy e \<or> trim e = [])"

definition cortexNote :: jsstring where
  "cortexNote = [CHR 0x0A, CHR 0x0A] @
     ''(I tried to show you, but my visual cortex isn't connected. '' @
     ''Please configure the Gradio endpoint in settings!)''"

definition visualTrigger :: "jsstring \<Rightarrow> jsstring option \<Rightarrow> Reply" where
  \<comment> \<open>the visual trigger protocol handler, up to the final \<open>return\<close> of the chat route\<close>
  "visualTrigger replyText gradioEndpoint =
     (case selfieMatch replyText of
        None \<Rightarrow>
          \<lparr>r_text = replyText, r_image = None, r_visualPrompt = None,
           r_isError = None, r_errorMessage = None\<rparr>
      | Some cap \<Rightarrow>
          (let visualPrompt = (case cap of
                                 None \<Rightarrow> ''looking at the camera''
                               | Some d \<Rightarrow> if truthy d then d else ''looking at the camera'');
               cleaned = trim (removeSelfieTags replyText)
           in if endpointMissing gradioEndpoint
              then \<lparr>r_text = cleaned @ cortexNote, r_image = None, r_visualPrompt = None,
                    r_isError = None, r_errorMessage = None\<rparr>
              else \<lparr>r_text = cleaned, r_image = None, r_visualPrompt = Some visualPrompt,
                    r_isError = None, r_errorMessage = None\<rparr>))"

section \<open>The remote services and the session\<close>

datatype ModelTier = Free | Pro

text \<open>
  A thrown value: an \<open>Error\<close> with its message, or any other value with its string
  conversion. \<open>errorText\<close> is \<^verbatim>\<open>e instanceof Error ? e.message : String(e)\<close>.
\<close>

datatype JsError = Error jsstring | Thrown jsstring

definition errorText :: "JsError \<Rightarrow> jsstring" where
  "errorText e = (case e of Error m \<Rightarrow> m | Thrown s \<Rightarrow> s)"

text \<open>
  The values the service reads from the module \<open>constants\<close> (the system instruction, the
  model names of each tier, the description of the appearance) are parameters of the
  model: the properties below hold whatever these values are.
\<close>

record ModelNames =
  chatModel :: jsstring
  imageModel :: jsstring

record Constants =
  EVE_SYSTEM_INSTRUCTION :: jsstring
  MODELS :: "ModelTier \<Rightarrow> ModelNames"
  EVE_APPEARANCE :: jsstring

text \<open>
  The argument of \<open>ai.chats.create\<close>. The safety settings are the same in every call and
  are left out; \<open>cp_sampling\<close> says whether temperature, topP and topK are given;
  \<open>cp_history\<close> is \<open>None\<close> when the call has no \<open>history\<close> field.
\<close>

record CreateParams =
  cp_model :: jsstring
  cp_systemInstruction :: jsstring
  cp_sampling :: bool
  cp_history :: "Turn list option"

text \<open>A reference to a chat object of the SDK; its remote conversation is not modelled.\<close>

datatype Chat = ChatRef nat

text \<open>The argument of \<open>sendMessage\<close>: the message text, or an object with parts.\<close>

datatype Content = Plain jsstring | Multipart "Part list"

text \<open>A part of a response candidate, as \<open>processImageResponse\<close> reads it.\<close>

datatype ResponsePart =
    RInlineData "jsstring option" "jsstring option"
  | RText jsstring
  | ROther

text \<open>The first element of the data a Gradio prediction returns.\<close>

datatype GradioItem = UrlItem jsstring | StringItem jsstring | OtherItem

datatype AspectRatio = Portrait | Square

text \<open>
  The calls the service issues, in the order it issues them: \<open>ai.chats.create\<close>, the
  \<open>ai.models.generateContent\<close> of the image-editing route, the one of the prompt
  rewriter, \<open>generateWithGradio\<close>, and \<open>chatSession.sendMessage\<close>.
\<close>

datatype Event =
    ChatsCreate jsstring CreateParams
  | ImageEditCall jsstring jsstring "Part list"
  | RephraseCall jsstring jsstring jsstring
  | GradioCall jsstring "jsstring option" AspectRatio
  | ChatSend Chat Content

text \<open>
  What the remote services answer. Each answer is either a thrown value (\<open>Inl\<close>) or a
  result (\<open>Inr\<close>); the model makes no assumption on which, only that the answer depends
  on the arguments of the call. The constructor of the SDK client is taken not to throw.
\<close>

record Env =
  processEnvApiKey :: "jsstring option"
  chatsCreate :: "jsstring \<Rightarrow> CreateParams \<Rightarrow> JsError + Chat"
  imageEditGenerate :: "jsstring \<Rightarrow> jsstring \<Rightarrow> Part list \<Rightarrow> JsError + ResponsePart list option"
  rephraseGenerate :: "jsstring \<Rightarrow> jsstring \<Rightarrow> jsstring \<Rightarrow> JsError + jsstring option"
  gradioPredict :: "jsstring \<Rightarrow> jsstring \<Rightarrow> nat \<Rightarrow> nat \<Rightarrow> JsError + GradioItem list option"
  chatSendMessage :: "Chat \<Rightarrow> Content \<Rightarrow> JsError + jsstring option"

text \<open>
  The module state: the singleton \<open>chatSession\<close> and \<open>currentTier\<close>. \<open>calls\<close> is the log of
  the calls issued so far; the source has no such variable.
\<close>

record ServiceState =
  chatSession :: "Chat option"
  currentTier :: ModelTier
  calls :: "Event list"

definition logCall :: "Event \<Rightarrow> ServiceState \<Rightarrow> ServiceState" where
  "logCall e st = st\<lparr>calls := calls st @ [e]\<rparr>"

definition getApiKey :: "Env \<Rightarrow> jsstring option \<Rightarrow> jsstring" where
  "getApiKey env providedKey =
     (case providedKey of
        Some k \<Rightarrow> if truthy k then k else
          (case processEnvApiKey env of Some e \<Rightarrow> if truthy e then e else [] | None \<Rightarrow> [])
      | None \<Rightarrow>
          (case processEnvApiKey env of Some e \<Rightarrow> if truthy e then e else [] | None \<Rightarrow> []))"

definition seededParams :: "Constants \<Rightarrow> ModelTier \<Rightarrow> Turn list \<Rightarrow> CreateParams" where
  \<comment> \<open>the argument of \<open>create\<close> in the \<open>try\<close> block\<close>
  "seededParams k tier validHistory =
     \<lparr>cp_model = chatModel (MODELS k tier),
      cp_systemInstruction = EVE_SYSTEM_INSTRUCTION k,
      cp_sampling = True, cp_history = Some validHistory\<rparr>"

definition fallbackParams :: "Constants \<Rightarrow> ModelTier \<Rightarrow> CreateParams" where
  \<comment> \<open>the argument of \<open>create\<close> in the \<open>catch\<close> block: no history, no sampling parameters\<close>
  "fallbackParams k tier =
     \<lparr>cp_model = chatModel (MODELS k tier),
      cp_systemInstruction = EVE_SYSTEM_INSTRUCTION k,
      cp_sampling = False, cp_history = None\<rparr>"

definition initializeChat ::
  "Env \<Rightarrow> Constants \<Rightarrow> ModelTier \<Rightarrow> Turn list option \<Rightarrow> jsstring option \<Rightarrow> ServiceState
     \<Rightarrow> (JsError + unit) \<times> ServiceState" where
  "initializeChat env k tier history apiKey st =
     (let key = getApiKey env apiKey;
          st1 = st\<lparr>currentTier := tier\<rparr>;
          validHistory = (case history of Some h \<Rightarrow> h | None \<Rightarrow> []);
          st2 = logCall (ChatsCreate key (seededParams k tier validHistory)) st1
      in case chatsCreate env key (seededParams k tier validHistory) of
           Inr c \<Rightarrow> (Inr (), st2\<lparr>chatSession := Some c\<rparr>)
         | Inl error \<Rightarrow>
             (let st3 = logCall (ChatsCreate key (fallbackParams k tier)) st2
              in case chatsCreate env key (fallbackParams k tier) of
                   Inr c \<Rightarrow> (Inr (), st3\<lparr>chatSession := Some c\<rparr>)
                 | Inl error' \<Rightarrow> (Inl error', st3)))"

definition startChatWithHistory ::
  "Env \<Rightarrow> Constants \<Rightarrow> ModelTier \<Rightarrow> Message list \<Rightarrow> jsstring option \<Rightarrow> ServiceState
     \<Rightarrow> (JsError + unit) \<times> ServiceState" where
  "startChatWithHistory env k tier history apiKey st =
     (if length history = 0 then initializeChat env k tier (Some []) apiKey st
      else (case initializeChat env k tier (Some (reconcileTurns history)) apiKey st of
              (Inr u, st') \<Rightarrow> (Inr u, st')
            | (Inl e, st') \<Rightarrow> initializeChat env k tier (Some []) apiKey st'))"

definition rephrasePromptForGradio ::
  "Env \<Rightarrow> Constants \<Rightarrow> jsstring \<Rightarrow> ModelTier \<Rightarrow> jsstring option \<Rightarrow> ServiceState
     \<Rightarrow> jsstring \<times> ServiceState" where
  \<comment> \<open>the request text is a fixed instruction around \<open>userMessage\<close>; the call is logged with \<open>userMessage\<close>\<close>
  "rephrasePromptForGradio env k userMessage tier apiKey st =
     (let key = getApiKey env apiKey;
          st1 = logCall (RephraseCall key (chatModel (MODELS k tier)) userMessage) st
      in case rephraseGenerate env key (chatModel (MODELS k tier)) userMessage of
           Inr response \<Rightarrow>
             (case response of
                Some t \<Rightarrow> (if truthy (trim t) then trim t else userMessage, st1)
              | None \<Rightarrow> (userMessage, st1))
         | Inl error \<Rightarrow> (userMessage, st1))"

definition gradioFailed :: "jsstring \<Rightarrow> JsError" where
  "gradioFailed errorMessage =
     Error (''Gradio connection or prediction failed: '' @ errorMessage)"

definition generateWithGradio ::
  "Env \<Rightarrow> jsstring \<Rightarrow> jsstring option \<Rightarrow> AspectRatio \<Rightarrow> ServiceState
     \<Rightarrow> (JsError + jsstring) \<times> ServiceState" where
  "generateWithGradio env prompt endpoint aspectRatio st =
     (let st1 = logCall (GradioCall prompt endpoint aspectRatio) st
      in case endpoint of
           None \<Rightarrow> (Inl (Error ''Gradio endpoint not configured.''), st1)
         | Some ep \<Rightarrow>
             if \<not> truthy ep \<or> trim ep = []
             then (Inl (Error ''Gradio endpoint not configured.''), st1)
             else (let width = (if aspectRatio = Portrait then 576 else 1024);
                       height = (if aspectRatio = Portrait then 1024 else 1024)
                   in case gradioPredict env ep prompt width height of
                        Inl e \<Rightarrow> (Inl (gradioFailed (errorText e)), st1)
                      | Inr data \<Rightarrow>
                          (case data of
                             Some (UrlItem url # rest) \<Rightarrow>
                               if truthy url then (Inr url, st1)
                               else (Inl (gradioFailed
                                      ''Gradio prediction returned no valid image URL.''), st1)
                           | Some (StringItem item # rest) \<Rightarrow> (Inr item, st1)
                           | _ \<Rightarrow>
                               (Inl (gradioFailed
                                      ''Gradio prediction returned no valid image URL.''), st1))))"

definition selfiePrompt :: "Constants \<Rightarrow> jsstring \<Rightarrow> jsstring" where
  \<comment> \<open>the prompt of \<open>generateVisualSelfie\<close>\<close>
  "selfiePrompt k description =
     ''Subject: '' @ EVE_APPEARANCE k @ ''. Action: '' @ description @
     ''. Style: Photorealistic, 8k resolution, cinematic lighting, '' @
     ''highly detailed skin texture, raw photo, masterpiece.''"

definition generateVisualSelfie ::
  "Env \<Rightarrow> Constants \<Rightarrow> jsstring \<Rightarrow> ModelTier \<Rightarrow> jsstring option \<Rightarrow> jsstring option
     \<Rightarrow> ServiceState \<Rightarrow> (JsError + jsstring) \<times> ServiceState" where
  "generateVisualSelfie env k description tier apiKey gradioEndpoint st =
     generateWithGradio env (selfiePrompt k description) gradioEndpoint Portrait st"

fun replaceFirst :: "jsstring \<Rightarrow> jsstring \<Rightarrow> jsstring \<Rightarrow> jsstring" where
  \<comment> \<open>\<open>replaceFirst s p r\<close> is \<open>s.replace(p, r)\<close> for a string pattern \<open>p\<close>\<close>
  "replaceFirst [] p r = (if p = [] then r else [])"
| "replaceFirst (c # cs) p r =
     (if startsWith (c # cs) p then r @ drop (length p) (c # cs)
      else c # replaceFirst cs p r)"

fun collectImageResponse ::
  "ResponsePart list \<Rightarrow> jsstring option \<Rightarrow> jsstring \<Rightarrow> jsstring option \<times> jsstring" where
  \<comment> \<open>the loop of \<open>processImageResponse\<close> over the parts; \<open>img\<close> and \<open>txt\<close> are \<open>image\<close> and \<open>text\<close>\<close>
  "collectImageResponse [] img txt = (img, txt)"
| "collectImageResponse (RInlineData mt d # ps) img txt =
     collectImageResponse ps
       (Some (''data:'' @ (case mt of Some m \<Rightarrow> if truthy m then m else ''image/png''
                                   | None \<Rightarrow> ''image/png'') @
              '';base64,'' @ (case d of Some x \<Rightarrow> x | None \<Rightarrow> ''undefined''))) txt"
| "collectImageResponse (RText t # ps) img txt =
     collectImageResponse ps img (if truthy t then txt @ t else txt)"
| "collectImageResponse (ROther # ps) img txt = collectImageResponse ps img txt"

definition processImageResponse :: "ResponsePart list option \<Rightarrow> jsstring \<Rightarrow> Reply" where
  "processImageResponse response fallbackText =
     (let (img, txt) = (case response of
                          Some ps \<Rightarrow> collectImageResponse ps None []
                        | None \<Rightarrow> (None, []))
      in \<lparr>r_text = (if truthy txt then txt else fallbackText), r_image = img,
          r_visualPrompt = None, r_isError = None, r_errorMessage = None\<rparr>)"

section \<open>Sending a message (sendMessageToEve)\<close>

definition selfPortraitRequested :: "jsstring \<Rightarrow> bool" where
  \<comment> \<open>the test in front of the predefined prompt structure of the generation route\<close>
  "selfPortraitRequested message =
     (includesStr (toLowerCase message) ''selfie'' \<or> includesStr (toLowerCase message) ''you'')"

definition personaPrompt :: "Constants \<Rightarrow> jsstring \<Rightarrow> jsstring" where
  "personaPrompt k message =
     ''Subject: '' @ EVE_APPEARANCE k @ ''. Action: '' @ message @
     ''. Style: Photorealistic, 8k.''"

definition routeImageEdit ::
  "Env \<Rightarrow> Constants \<Rightarrow> jsstring \<Rightarrow> ModelTier \<Rightarrow> Part \<Rightarrow> jsstring option \<Rightarrow> ServiceState
     \<Rightarrow> (JsError + Reply) \<times> ServiceState" where
  \<comment> \<open>ROUTE 1: image editing; \<open>inlinePart\<close> is the attachment as inline data\<close>
  "routeImageEdit env k message tier inlinePart apiKey st =
     (let key = getApiKey env apiKey;
          ps = [inlinePart, TextPart message];
          st1 = logCall (ImageEditCall key (imageModel (MODELS k tier)) ps) st
      in case imageEditGenerate env key (imageModel (MODELS k tier)) ps of
           Inl e \<Rightarrow> (Inl e, st1)
         | Inr response \<Rightarrow>
             (Inr (processImageResponse response
                     ''I've evolved the visual based on your request.''), st1))"

definition gradioErrorReply :: "jsstring \<Rightarrow> Reply" where
  \<comment> \<open>the \<open>catch\<close> block of the generation route, for an error with this message\<close>
  "gradioErrorReply msg =
     (if includesStr msg ''Gradio endpoint not configured.''
      then \<lparr>r_text = ''I need a visual cortex connection to visualize that. '' @
                      ''Please configure the Gradio endpoint in settings.'',
            r_image = None, r_visualPrompt = None, r_isError = Some True,
            r_errorMessage = None\<rparr>
      else \<lparr>r_text = ''I tried to connect to the visual cortex, but the signal was lost. '' @
                      ''Please check your Gradio endpoint and ensure the space is '' @
                      ''running. Error: '' @
                      replaceFirst msg ''Gradio connection or prediction failed: '' [],
            r_image = None, r_visualPrompt = None, r_isError = Some True,
            r_errorMessage = None\<rparr>)"

definition routeImageGenerate ::
  "Env \<Rightarrow> Constants \<Rightarrow> jsstring \<Rightarrow> ModelTier \<Rightarrow> jsstring option \<Rightarrow> jsstring option
     \<Rightarrow> ServiceState \<Rightarrow> (JsError + Reply) \<times> ServiceState" where
  \<comment> \<open>ROUTE 2: image generation through Gradio\<close>
  "routeImageGenerate env k message tier apiKey gradioEndpoint st =
     (let (generationPrompt, st1) =
            (if selfPortraitRequested message then (personaPrompt k message, st)
             else rephrasePromptForGradio env k message tier apiKey st)
      in case generateWithGradio env generationPrompt gradioEndpoint Portrait st1 of
           (Inr imageUrl, st2) \<Rightarrow>
             (Inr \<lparr>r_text = ''Here is what I visualized for you.'', r_image = Some imageUrl,
                   r_visualPrompt = None, r_isError = None, r_errorMessage = None\<rparr>, st2)
         | (Inl e, st2) \<Rightarrow>
             (case e of
                Error msg \<Rightarrow> (Inr (gradioErrorReply msg), st2)
              | Thrown v \<Rightarrow>
                  (Inl (Error ''Cannot read properties of undefined (reading 'includes')''),
                   st2)))"

definition routeChat ::
  "Env \<Rightarrow> Constants \<Rightarrow> Content \<Rightarrow> ModelTier \<Rightarrow> jsstring option \<Rightarrow> jsstring option
     \<Rightarrow> ServiceState \<Rightarrow> (JsError + Reply) \<times> ServiceState" where
  \<comment> \<open>ROUTE 3: standard chat, from the safety check on\<close>
  "routeChat env k msgContent tier apiKey gradioEndpoint st =
     (case (if chatSession st = None then initializeChat env k tier (Some []) apiKey st
            else (Inr (), st)) of
        (Inl e, st1) \<Rightarrow> (Inl e, st1)
      | (Inr u, st1) \<Rightarrow>
          (case chatSession st1 of
             None \<Rightarrow>
               (Inl (Error ''Cannot read properties of null (reading 'sendMessage')''), st1)
           | Some c \<Rightarrow>
               (let st2 = logCall (ChatSend c msgContent) st1
                in case chatSendMessage env c msgContent of
                     Inl e \<Rightarrow> (Inl e, st2)
                   | Inr result \<Rightarrow>
                       (Inr (visualTrigger (case result of Some t \<Rightarrow> t | None \<Rightarrow> [])
                               gradioEndpoint), st2))))"

definition interruptedReply :: "JsError \<Rightarrow> Reply" where
  \<comment> \<open>the value returned by the outer \<open>catch\<close> block\<close>
  "interruptedReply error =
     \<lparr>r_text = ''Connection interrupted. I'm still here, though.'', r_image = None,
      r_visualPrompt = None, r_isError = Some True,
      r_errorMessage = Some (errorText error)\<rparr>"

definition attachmentPart :: "jsstring option \<Rightarrow> Part" where
  \<comment> \<open>\<open>{ inlineData: { data: cleanBase64!, mimeType } }\<close>; read only where the attachment is truthy\<close>
  "attachmentPart attachmentBase64 =
     (case attachmentBase64 of
        Some a \<Rightarrow>
          if truthy a then InlineData (getMimeType a) (stripDataImagePrefix a)
          else InlineData ''image/jpeg'' []
      | None \<Rightarrow> InlineData ''image/jpeg'' [])"

definition restoreSession ::
  "Env \<Rightarrow> Constants \<Rightarrow> ModelTier \<Rightarrow> Message list \<Rightarrow> jsstring option \<Rightarrow> ServiceState
     \<Rightarrow> (JsError + unit) \<times> ServiceState" where
  \<comment> \<open>auto-init or restore when the session is missing or the tier changed\<close>
  "restoreSession env k tier history apiKey st =
     (if chatSession st = None \<or> currentTier st \<noteq> tier
      then startChatWithHistory env k tier history apiKey st
      else (Inr (), st))"

definition messageContent :: "jsstring \<Rightarrow> jsstring option \<Rightarrow> Content" where
  \<comment> \<open>\<open>msgContent\<close> of the chat route\<close>
  "messageContent message attachmentBase64 =
     (if truthyOpt attachmentBase64
      then Multipart [attachmentPart attachmentBase64, TextPart message]
      else Plain message)"

definition sendMessageToEve ::
  "Env \<Rightarrow> Constants \<Rightarrow> jsstring \<Rightarrow> ModelTier \<Rightarrow> Message list \<Rightarrow> jsstring option \<Rightarrow> bool
     \<Rightarrow> jsstring option \<Rightarrow> jsstring option \<Rightarrow> ServiceState
     \<Rightarrow> (JsError + Reply) \<times> ServiceState" where
  "sendMessageToEve env k message tier history attachmentBase64 forceImageGeneration
       apiKey gradioEndpoint st =
     (case restoreSession env k tier history apiKey st of
        (Inl e, st1) \<Rightarrow> (Inl e, st1)
      | (Inr u, st1) \<Rightarrow>
          (case (if truthyOpt attachmentBase64 \<and> forceImageGeneration
                 then routeImageEdit env k message tier (attachmentPart attachmentBase64)
                        apiKey st1
                 else if \<not> truthyOpt attachmentBase64 \<and> forceImageGeneration
                 then routeImageGenerate env k message tier apiKey gradioEndpoint st1
                 else routeChat env k (messageContent message attachmentBase64)
                        tier apiKey gradioEndpoint st1) of
             (Inr reply, st2) \<Rightarrow> (Inr reply, st2)
           | (Inl error, st2) \<Rightarrow> (Inr (interruptedReply error), st2)))"

section \<open>Completion of a background image job (handleSendMessage)\<close>

definition clearLoading :: "jsstring \<Rightarrow> Message list \<Rightarrow> Message list" where
  \<comment> \<open>\<open>prev.map(m => m.id === messageId ? { ...m, isImageLoading: false } : m)\<close>\<close>
  "clearLoading messageId prev =
     map (\<lambda>m. if m_id m = messageId then m\<lparr>m_isImageLoading := Some False\<rparr> else m) prev"

definition attachImage :: "jsstring \<Rightarrow> jsstring \<Rightarrow> Message list \<Rightarrow> Message list" where
  \<comment> \<open>\<open>{ ...m, image: generatedImage, isImageLoading: false }\<close> for the message with the id\<close>
  "attachImage messageId generatedImage prev =
     map (\<lambda>m. if m_id m = messageId
              then m\<lparr>m_image := Some generatedImage, m_isImageLoading := Some False\<rparr>
              else m) prev"

definition visualJobSettled ::
  "jsstring \<Rightarrow> JsError + jsstring option \<Rightarrow> Message list \<Rightarrow> Message list" where
  \<comment> \<open>the \<open>then\<close> and \<open>catch\<close> handlers on the promise of \<open>generateVisualSelfie\<close>\<close>
  "visualJobSettled messageId outcome prev =
     (case outcome of
        Inr generatedImage \<Rightarrow>
          (case generatedImage of
             Some g \<Rightarrow> if truthy g then attachImage messageId g prev
                       else clearLoading messageId prev
           | None \<Rightarrow> clearLoading messageId prev)
      | Inl err \<Rightarrow> clearLoading messageId prev)"

text \<open>The routes of the decision table, and the route a logged call belongs to.\<close>

datatype Route = IMAGE_EDIT | IMAGE_GENERATE | CHAT

definition decisionTable :: "bool \<Rightarrow> bool \<Rightarrow> Route" where
  \<comment> \<open>the table of the specification over (hasAttachment, explicitIntent)\<close>
  "decisionTable hasAttachment explicitIntent =
     (if explicitIntent then (if hasAttachment then IMAGE_EDIT else IMAGE_GENERATE)
      else CHAT)"

fun routeOfCall :: "Event \<Rightarrow> Route option" where
  "routeOfCall (ChatsCreate key p) = None"
| "routeOfCall (ImageEditCall key m ps) = Some IMAGE_EDIT"
| "routeOfCall (RephraseCall key m u) = Some IMAGE_GENERATE"
| "routeOfCall (GradioCall p e a) = Some IMAGE_GENERATE"
| "routeOfCall (ChatSend c m) = Some CHAT"

definition newCalls :: "ServiceState \<Rightarrow> ServiceState \<Rightarrow> Event list" where
  \<comment> \<open>the calls logged between two states\<close>
  "newCalls st st' = drop (length (calls st)) (calls st')"

definition routesTaken :: "ServiceState \<Rightarrow> ServiceState \<Rightarrow> Route set" where
  "routesTaken st st' = set (List.map_filter routeOfCall (newCalls st st'))"

text \<open>Concrete constants, remote services and states, for the examples below.\<close>

definition exampleConstants :: Constants where
  "exampleConstants =
     \<lparr>EVE_SYSTEM_INSTRUCTION = ''You are Eve.'',
      MODELS = (\<lambda>tier. \<lparr>chatModel = ''chat-model'', imageModel = ''image-model''\<rparr>),
      EVE_APPEARANCE = ''a woman with silver hair''\<rparr>"

definition offlineEnv :: Env where
  \<comment> \<open>every remote call throws\<close>
  "offlineEnv =
     \<lparr>processEnvApiKey = None,
      chatsCreate = (\<lambda>key p. Inl (Error ''offline'')),
      imageEditGenerate = (\<lambda>key m ps. Inl (Error ''offline'')),
      rephraseGenerate = (\<lambda>key m u. Inl (Error ''offline'')),
      gradioPredict = (\<lambda>ep p w h. Inl (Error ''offline'')),
      chatSendMessage = (\<lambda>c m. Inl (Error ''offline''))\<rparr>"

definition strictEnv :: Env where
  \<comment> \<open>a context cannot be opened with a history; a message cannot be sent\<close>
  "strictEnv =
     \<lparr>processEnvApiKey = None,
      chatsCreate = (\<lambda>key p. case cp_history p of
                                 None \<Rightarrow> Inr (ChatRef 2)
                               | Some h \<Rightarrow> Inl (Error ''invalid history'')),
      imageEditGenerate = (\<lambda>key m ps. Inl (Error ''offline'')),
      rephraseGenerate = (\<lambda>key m u. Inl (Error ''offline'')),
      gradioPredict = (\<lambda>ep p w h. Inl (Error ''offline'')),
      chatSendMessage = (\<lambda>c m. Inl (Error ''timeout''))\<rparr>"

definition liveEnv :: Env where
  \<comment> \<open>every remote call answers\<close>
  "liveEnv =
     \<lparr>processEnvApiKey = Some ''key'',
      chatsCreate = (\<lambda>key p. Inr (ChatRef 1)),
      imageEditGenerate = (\<lambda>key m ps. Inr (Some [RText ''done''])),
      rephraseGenerate = (\<lambda>key m u. Inr (Some ''a castle, oil painting'')),
      gradioPredict = (\<lambda>ep p w h. Inr (Some [UrlItem ''https://x/y.png''])),
      chatSendMessage = (\<lambda>c m. Inr (Some ''hey! [SELFIE: waving]''))\<rparr>"

definition freshState :: ServiceState where
  "freshState = \<lparr>chatSession = None, currentTier = Free, calls = []\<rparr>"

definition activeState :: ServiceState where
  "activeState = \<lparr>chatSession = Some (ChatRef 7), currentTier = Free, calls = []\<rparr>"

definition exampleLog :: "Message list" where
  "exampleLog =
     [\<lparr>m_id = ''1'', m_role = User, m_text = ''hi'', m_image = None,
       m_isError = None, m_isImageLoading = None\<rparr>,
      \<lparr>m_id = ''2'', m_role = Model, m_text = ''hey!'', m_image = None,
       m_isError = None, m_isImageLoading = Some True\<rparr>]"

section \<open>Properties of history reconciliation\<close>

lemma flatten_acc: "flatten hs acc = acc @ flatten hs []"
proof (induction hs arbitrary: acc)
  case Nil
  show ?case by simp
next
  case (Cons h hs)
  have a: "\<And>t. flatten hs (acc @ [t]) = acc @ flatten hs [t]"
    using Cons.IH[of "acc @ [t]" for t] Cons.IH[of "[t]" for t] by simp
  show ?case
    by (cases "m_role h") (simp_all add: Let_def a Cons.IH[of acc])
qed

lemma shiftLeadingModel_hd:
  "shiftLeadingModel ts \<noteq> [] \<Longrightarrow> role (hd (shiftLeadingModel ts)) = User"
  by (induction ts) (auto intro: Role.exhaust)

lemma closeTrailingUser_last:
  "closeTrailingUser ts \<noteq> [] \<Longrightarrow> role (last (closeTrailingUser ts)) = Model"
  by (cases "role (last ts)") (auto simp: closeTrailingUser_def dummyModelTurn_def)

lemma closeTrailingUser_hd: "ts \<noteq> [] \<Longrightarrow> hd (closeTrailingUser ts) = hd ts"
  by (simp add: closeTrailingUser_def)

lemma closeTrailingUser_Nil: "closeTrailingUser ts = [] \<longleftrightarrow> ts = []"
  by (simp add: closeTrailingUser_def)

text \<open>
  C1. Whatever the message log, a reconciled history that is not empty opens on a user
  turn and closes on a model turn.
\<close>

theorem reconcile_user_first_model_last:
  "reconcile history \<noteq> [] \<Longrightarrow>
     role (hd (reconcile history)) = User \<and> role (last (reconcile history)) = Model"
  by (auto simp: reconcile_def reconcileTurns_def closeTrailingUser_hd closeTrailingUser_Nil
      closeTrailingUser_last shiftLeadingModel_hd split: if_splits)

theorem reconcile_user_first_model_last_witness:
  "reconcile [\<lparr>m_id = ''1'', m_role = Model, m_text = ''welcome'', m_image = None,
               m_isError = None, m_isImageLoading = None\<rparr>,
              \<lparr>m_id = ''2'', m_role = User, m_text = ''hi'', m_image = None,
               m_isError = None, m_isImageLoading = None\<rparr>] \<noteq> [] \<and>
   role (hd (reconcile
             [\<lparr>m_id = ''1'', m_role = Model, m_text = ''welcome'', m_image = None,
               m_isError = None, m_isImageLoading = None\<rparr>,
              \<lparr>m_id = ''2'', m_role = User, m_text = ''hi'', m_image = None,
               m_isError = None, m_isImageLoading = None\<rparr>])) = User \<and>
   role (last (reconcile
             [\<lparr>m_id = ''1'', m_role = Model, m_text = ''welcome'', m_image = None,
               m_isError = None, m_isImageLoading = None\<rparr>,
              \<lparr>m_id = ''2'', m_role = User, m_text = ''hi'', m_image = None,
               m_isError = None, m_isImageLoading = None\<rparr>])) = Model"
proof -
  let ?log = "[\<lparr>m_id = ''1'', m_role = Model, m_text = ''welcome'', m_image = None,
               m_isError = None, m_isImageLoading = None\<rparr>,
              \<lparr>m_id = ''2'', m_role = User, m_text = ''hi'', m_image = None,
               m_isError = None, m_isImageLoading = None\<rparr>]"
  have ne: "reconcile ?log \<noteq> []" by code_simp
  from ne reconcile_user_first_model_last [OF ne] show ?thesis by simp
qed

lemma flatten_filter:
  "flatten (filter (\<lambda>h. \<not> flagSet (m_isError h)) hs) acc = flatten hs acc"
  by (induction hs arbitrary: acc) (simp_all add: Let_def split: Role.splits)

lemma flatten_all_error:
  "\<forall>h \<in> set hs. flagSet (m_isError h) \<Longrightarrow> flatten hs acc = acc"
  by (induction hs arbitrary: acc) simp_all

text \<open>
  C6. Entries whose error flag is set contribute nothing: removing them from the log
  leaves the reconciled history as it is, so every turn and every part of the output
  comes from the entries that are not flagged.
\<close>

theorem reconcile_drops_error_entries:
  "reconcile history = reconcile (filter (\<lambda>h. \<not> flagSet (m_isError h)) history)"
proof (cases "filter (\<lambda>h. \<not> flagSet (m_isError h)) history = []")
  case True
  then have "\<forall>h \<in> set history. flagSet (m_isError h)"
    by (simp add: filter_empty_conv)
  then have "flatten history [] = []" by (rule flatten_all_error)
  with True show ?thesis
    by (simp add: reconcile_def reconcileTurns_def mergePass_def closeTrailingUser_def)
next
  case False
  then have "history \<noteq> []" by auto
  with False show ?thesis by (simp add: reconcile_def reconcileTurns_def flatten_filter)
qed

text \<open>
  C7. Two user entries followed by a model entry, none flagged as an error and both user
  entries producing parts, reconcile to two turns: the user turn holds the parts of the
  first entry followed by those of the second, the model turn the part of the third.
\<close>

theorem reconcile_merges_consecutive_users:
  assumes "m_role a = User" and "m_role b = User" and "m_role c = Model"
    and "\<not> flagSet (m_isError a)" and "\<not> flagSet (m_isError b)"
    and "\<not> flagSet (m_isError c)"
    and "userParts a \<noteq> []" and "userParts b \<noteq> []"
  shows "reconcile [a, b, c] =
           [\<lparr>role = User, parts = userParts a @ userParts b\<rparr>,
            \<lparr>role = Model, parts = modelParts c\<rparr>]"
  using assms
  by (simp add: reconcile_def reconcileTurns_def Let_def mergePass_def closeTrailingUser_def)

theorem reconcile_merges_consecutive_users_witness:
  "reconcile [\<lparr>m_id = ''1'', m_role = User, m_text = ''A'', m_image = None,
               m_isError = None, m_isImageLoading = None\<rparr>,
              \<lparr>m_id = ''2'', m_role = User, m_text = ''B'',
               m_image = Some ''data:image/png;base64,QUJD'',
               m_isError = Some False, m_isImageLoading = None\<rparr>,
              \<lparr>m_id = ''3'', m_role = Model, m_text = ''C'', m_image = None,
               m_isError = None, m_isImageLoading = Some False\<rparr>] =
     [\<lparr>role = User,
       parts = [TextPart ''A'', InlineData ''image/png'' ''QUJD'', TextPart ''B'']\<rparr>,
      \<lparr>role = Model, parts = [TextPart ''C'']\<rparr>]"
proof -
  let ?a = "\<lparr>m_id = ''1'', m_role = User, m_text = ''A'', m_image = None,
               m_isError = None, m_isImageLoading = None\<rparr>"
  let ?b = "\<lparr>m_id = ''2'', m_role = User, m_text = ''B'',
               m_image = Some ''data:image/png;base64,QUJD'',
               m_isError = Some False, m_isImageLoading = None\<rparr>"
  let ?c = "\<lparr>m_id = ''3'', m_role = Model, m_text = ''C'', m_image = None,
               m_isError = None, m_isImageLoading = Some False\<rparr>"
  have pa: "userParts ?a = [TextPart ''A'']" by code_simp
  have pb: "userParts ?b = [InlineData ''image/png'' ''QUJD'', TextPart ''B'']"
    by code_simp
  have pc: "modelParts ?c = [TextPart ''C'']" by code_simp
  have "reconcile [?a, ?b, ?c] =
          [\<lparr>role = User, parts = userParts ?a @ userParts ?b\<rparr>,
           \<lparr>role = Model, parts = modelParts ?c\<rparr>]"
    by (rule reconcile_merges_consecutive_users) (simp_all add: flagSet_def pa pb)
  then show ?thesis by (simp only: pa pb pc append.simps)
qed

lemma flatten_valid:
  "list_all producesParts hs \<Longrightarrow> flatten hs acc = acc @ map entryTurn hs"
proof (induction hs arbitrary: acc)
  case Nil
  show ?case by simp
next
  case (Cons h hs)
  then show ?case
    by (cases "m_role h")
       (simp_all add: Let_def entryTurn_def entryParts_def producesParts_def)
qed

lemma mergeLoop_alternating:
  "alternating (h # hs) \<Longrightarrow>
     mergeLoop (entryTurn h) (map entryTurn hs) acc = acc @ map entryTurn (h # hs)"
proof (induction hs arbitrary: h acc)
  case Nil
  show ?case by simp
next
  case (Cons h' hs)
  from Cons.prems have d: "m_role h \<noteq> m_role h'" and a: "alternating (h' # hs)"
    by simp_all
  have "mergeLoop (entryTurn h) (map entryTurn (h' # hs)) acc =
          mergeLoop (entryTurn h') (map entryTurn hs) (acc @ [entryTurn h])"
    using d by (auto simp: entryTurn_def)
  also have "\<dots> = (acc @ [entryTurn h]) @ map entryTurn (h' # hs)"
    using a by (rule Cons.IH)
  finally show ?case by simp
qed

lemma mergePass_alternating:
  "alternating hs \<Longrightarrow> mergePass (map entryTurn hs) = map entryTurn hs"
  using mergeLoop_alternating[of _ _ "[]"]
  by (cases hs) (simp_all add: mergePass_def)

lemma reconcile_alternating:
  assumes "history \<noteq> []" and "m_role (hd history) = User" and "alternating history"
    and "list_all producesParts history"
  shows "reconcile history =
           map entryTurn history @
           (if m_role (last history) = User then [dummyModelTurn] else [])"
proof -
  have f: "flatten history [] = map entryTurn history"
    using flatten_valid[OF assms(4), of "[]"] by simp
  have m: "mergePass (map entryTurn history) = map entryTurn history"
    using assms(3) by (rule mergePass_alternating)
  obtain h hs where hs: "history = h # hs" using assms(1) by (cases history) auto
  have s: "shiftLeadingModel (map entryTurn history) = map entryTurn history"
    using assms(2) by (simp add: hs entryTurn_def)
  have l: "role (last (map entryTurn history)) = m_role (last history)"
    using assms(1) by (simp add: last_map entryTurn_def)
  show ?thesis
    using assms(1) by (simp add: reconcile_def reconcileTurns_def f m s closeTrailingUser_def l)
qed

text \<open>
  C8. A log that starts with a user entry, ends with a model entry, alternates strictly,
  has no entry flagged as an error and no entry without parts, reconciles to one turn per
  entry, each with the role and the parts of its entry; no synthetic turn is appended,
  since the log already ends on a model entry.
\<close>

theorem reconcile_valid_log_unchanged:
  "validLog history \<Longrightarrow> reconcile history = map entryTurn history"
  using reconcile_alternating[of history] by (simp add: validLog_def)

theorem reconcile_valid_log_unchanged_witness:
  "validLog [\<lparr>m_id = ''1'', m_role = User, m_text = ''hi'', m_image = None,
              m_isError = None, m_isImageLoading = None\<rparr>,
             \<lparr>m_id = ''2'', m_role = Model, m_text = ''hello'', m_image = None,
              m_isError = None, m_isImageLoading = None\<rparr>] \<and>
   reconcile [\<lparr>m_id = ''1'', m_role = User, m_text = ''hi'', m_image = None,
              m_isError = None, m_isImageLoading = None\<rparr>,
             \<lparr>m_id = ''2'', m_role = Model, m_text = ''hello'', m_image = None,
              m_isError = None, m_isImageLoading = None\<rparr>] =
     [\<lparr>role = User, parts = [TextPart ''hi'']\<rparr>,
      \<lparr>role = Model, parts = [TextPart ''hello'']\<rparr>]"
proof -
  let ?log = "[\<lparr>m_id = ''1'', m_role = User, m_text = ''hi'', m_image = None,
              m_isError = None, m_isImageLoading = None\<rparr>,
             \<lparr>m_id = ''2'', m_role = Model, m_text = ''hello'', m_image = None,
              m_isError = None, m_isImageLoading = None\<rparr>]"
  have v: "validLog ?log" by code_simp
  have t: "map entryTurn ?log =
             [\<lparr>role = User, parts = [TextPart ''hi'']\<rparr>,
              \<lparr>role = Model, parts = [TextPart ''hello'']\<rparr>]"
    by code_simp
  from v reconcile_valid_log_unchanged [OF v] t show ?thesis by simp
qed

section \<open>Properties of the trigger marker\<close>

text \<open>
  C3. On the reply \<open>hey [SELFIE: red dress] bye\<close> with an image backend configured, the
  handler returns the text \<open>hey  bye\<close> and the cue \<open>red dress\<close>; with no backend (an
  absent, empty or blank endpoint) it returns the stripped text followed by two line
  feeds and the fixed sentence on the visual cortex, and no cue.
\<close>

theorem visualTrigger_red_dress:
  "visualTrigger ''hey [SELFIE: red dress] bye'' endpoint =
     (if endpointMissing endpoint
      then \<lparr>r_text = ''hey  bye'' @ [CHR 0x0A, CHR 0x0A] @
                ''(I tried to show you, but my visual cortex isn't connected. '' @
                ''Please configure the Gradio endpoint in settings!)'',
            r_image = None, r_visualPrompt = None, r_isError = None,
            r_errorMessage = None\<rparr>
      else \<lparr>r_text = ''hey  bye'', r_image = None, r_visualPrompt = Some ''red dress'',
            r_isError = None, r_errorMessage = None\<rparr>)"
proof -
  have m: "selfieMatch ''hey [SELFIE: red dress] bye'' = Some (Some ''red dress'')"
    by code_simp
  have r: "trim (removeSelfieTags ''hey [SELFIE: red dress] bye'') = ''hey  bye''"
    by code_simp
  show ?thesis
    unfolding visualTrigger_def m r Let_def by (simp add: truthy_def cortexNote_def)
qed

theorem visualTrigger_red_dress_witness:
  "visualTrigger ''hey [SELFIE: red dress] bye'' (Some ''https://example.org/space'') =
     \<lparr>r_text = ''hey  bye'', r_image = None, r_visualPrompt = Some ''red dress'',
      r_isError = None, r_errorMessage = None\<rparr> \<and>
   visualTrigger ''hey [SELFIE: red dress] bye'' None =
     \<lparr>r_text = ''hey  bye'' @ [CHR 0x0A, CHR 0x0A] @
                ''(I tried to show you, but my visual cortex isn't connected. '' @
                ''Please configure the Gradio endpoint in settings!)'',
      r_image = None, r_visualPrompt = None, r_isError = None, r_errorMessage = None\<rparr> \<and>
   visualTrigger ''hey [SELFIE: red dress] bye'' (Some ''  '') =
     \<lparr>r_text = ''hey  bye'' @ [CHR 0x0A, CHR 0x0A] @
                ''(I tried to show you, but my visual cortex isn't connected. '' @
                ''Please configure the Gradio endpoint in settings!)'',
      r_image = None, r_visualPrompt = None, r_isError = None, r_errorMessage = None\<rparr> \<and>
   length (r_text (visualTrigger ''hey [SELFIE: red dress] bye'' None)) = 120"
proof -
  have e1: "\<not> endpointMissing (Some ''https://example.org/space'')" by code_simp
  have e2: "endpointMissing None" by code_simp
  have e3: "endpointMissing (Some ''  '')" by code_simp
  note configured = visualTrigger_red_dress [of "Some ''https://example.org/space''"]
  note absent = visualTrigger_red_dress [of None]
  note blank = visualTrigger_red_dress [of "Some ''  ''"]
  have len: "length (r_text (visualTrigger ''hey [SELFIE: red dress] bye'' None)) = 120"
    unfolding absent by (simp add: e2)
  from configured absent blank len show ?thesis
    by (simp only: e1 e2 e3 if_True if_False simp_thms)
qed

section \<open>Properties of the completion of an image job\<close>

lemma clearLoading_nth:
  "i < length prev \<Longrightarrow>
     clearLoading messageId prev ! i =
       (if m_id (prev ! i) = messageId then (prev ! i)\<lparr>m_isImageLoading := Some False\<rparr>
        else prev ! i)"
  by (simp add: clearLoading_def)

lemma attachImage_nth:
  "i < length prev \<Longrightarrow>
     attachImage messageId g prev ! i =
       (if m_id (prev ! i) = messageId
        then (prev ! i)\<lparr>m_image := Some g, m_isImageLoading := Some False\<rparr>
        else prev ! i)"
  by (simp add: attachImage_def)

lemma clearLoading_absent:
  "messageId \<notin> m_id ` set prev \<Longrightarrow> clearLoading messageId prev = prev"
  by (induction prev) (auto simp: clearLoading_def)

lemma attachImage_absent:
  "messageId \<notin> m_id ` set prev \<Longrightarrow> attachImage messageId g prev = prev"
  by (induction prev) (auto simp: attachImage_def)

text \<open>
  C5. When the image job settles, the message list keeps its length and its order. With
  an image (the job succeeded), every message with the target id gets the image and its
  pending flag cleared; otherwise (the job failed or gave no image) every message with
  the target id gets only its pending flag cleared, its text and its other fields staying
  as they were. A message with another id is not changed, and when no message has the
  target id the list is returned as it is.
\<close>

theorem visualJobSettled_patches_target_only:
  "length (visualJobSettled messageId outcome prev) = length prev \<and>
   (\<forall>i < length prev.
      (m_id (prev ! i) \<noteq> messageId \<longrightarrow>
         visualJobSettled messageId outcome prev ! i = prev ! i) \<and>
      (m_id (prev ! i) = messageId \<longrightarrow>
         (\<forall>g. outcome = Inr (Some g) \<and> truthy g \<longrightarrow>
            visualJobSettled messageId outcome prev ! i =
              (prev ! i)\<lparr>m_image := Some g, m_isImageLoading := Some False\<rparr>) \<and>
         ((\<forall>g. outcome = Inr (Some g) \<longrightarrow> \<not> truthy g) \<longrightarrow>
            visualJobSettled messageId outcome prev ! i =
              (prev ! i)\<lparr>m_isImageLoading := Some False\<rparr> \<and>
            m_text (visualJobSettled messageId outcome prev ! i) = m_text (prev ! i)))) \<and>
   (messageId \<notin> m_id ` set prev \<longrightarrow> visualJobSettled messageId outcome prev = prev)"
proof (cases "\<exists>g. outcome = Inr (Some g) \<and> truthy g")
  case True
  then obtain g where g: "outcome = Inr (Some g)" "truthy g" by blast
  then have eq: "visualJobSettled messageId outcome prev = attachImage messageId g prev"
    by (simp add: visualJobSettled_def)
  show ?thesis
    unfolding eq using g
    by (auto simp: attachImage_nth attachImage_absent) (simp add: attachImage_def)
next
  case False
  then have eq: "visualJobSettled messageId outcome prev = clearLoading messageId prev"
    by (auto simp: visualJobSettled_def split: sum.splits option.splits)
  show ?thesis
    unfolding eq using False
    by (auto simp: clearLoading_nth clearLoading_absent) (simp add: clearLoading_def)
qed

theorem visualJobSettled_patches_target_only_witness:
  "length (visualJobSettled ''2'' (Inr (Some ''https://x/y.png'')) exampleLog) = 2 \<and>
   visualJobSettled ''2'' (Inr (Some ''https://x/y.png'')) exampleLog ! 0 = exampleLog ! 0 \<and>
   visualJobSettled ''2'' (Inr (Some ''https://x/y.png'')) exampleLog ! 1 =
     \<lparr>m_id = ''2'', m_role = Model, m_text = ''hey!'', m_image = Some ''https://x/y.png'',
      m_isError = None, m_isImageLoading = Some False\<rparr> \<and>
   visualJobSettled ''2'' (Inl (Error ''offline'')) exampleLog ! 1 =
     \<lparr>m_id = ''2'', m_role = Model, m_text = ''hey!'', m_image = None,
      m_isError = None, m_isImageLoading = Some False\<rparr> \<and>
   visualJobSettled ''3'' (Inr (Some ''https://x/y.png'')) exampleLog = exampleLog"
proof -
  have len: "length exampleLog = 2" by (simp add: exampleLog_def)
  have id0: "m_id (exampleLog ! 0) \<noteq> ''2''" by (simp add: exampleLog_def)
  have id1: "m_id (exampleLog ! 1) = ''2''" by (simp add: exampleLog_def)
  have absent: "''3'' \<notin> m_id ` set exampleLog" by (simp add: exampleLog_def)
  have tr: "truthy ''https://x/y.png''" by (simp add: truthy_def)
  have m1: "(exampleLog ! 1)\<lparr>m_image := Some ''https://x/y.png'',
                              m_isImageLoading := Some False\<rparr> =
            \<lparr>m_id = ''2'', m_role = Model, m_text = ''hey!'',
             m_image = Some ''https://x/y.png'', m_isError = None,
             m_isImageLoading = Some False\<rparr>"
    by (simp add: exampleLog_def)
  have m2: "(exampleLog ! 1)\<lparr>m_isImageLoading := Some False\<rparr> =
            \<lparr>m_id = ''2'', m_role = Model, m_text = ''hey!'', m_image = None,
             m_isError = None, m_isImageLoading = Some False\<rparr>"
    by (simp add: exampleLog_def)
  note ok = visualJobSettled_patches_target_only
      [of "''2''" "Inr (Some ''https://x/y.png'')" exampleLog]
  note failed = visualJobSettled_patches_target_only
      [of "''2''" "Inl (Error ''offline'')" exampleLog]
  note gone = visualJobSettled_patches_target_only
      [of "''3''" "Inr (Some ''https://x/y.png'')" exampleLog]
  have a: "length (visualJobSettled ''2'' (Inr (Some ''https://x/y.png'')) exampleLog) = 2"
    using ok len by simp
  have b: "visualJobSettled ''2'' (Inr (Some ''https://x/y.png'')) exampleLog ! 0 =
             exampleLog ! 0"
    using ok len id0 by simp
  have c: "visualJobSettled ''2'' (Inr (Some ''https://x/y.png'')) exampleLog ! 1 =
             (exampleLog ! 1)\<lparr>m_image := Some ''https://x/y.png'',
                               m_isImageLoading := Some False\<rparr>"
    using ok len id1 tr by simp
  have d: "visualJobSettled ''2'' (Inl (Error ''offline'')) exampleLog ! 1 =
             (exampleLog ! 1)\<lparr>m_isImageLoading := Some False\<rparr>"
    using failed len id1 by simp
  have e: "visualJobSettled ''3'' (Inr (Some ''https://x/y.png'')) exampleLog = exampleLog"
    using gone absent by blast
  from a b c d e show ?thesis by (simp only: m1 m2 simp_thms)
qed

section \<open>Properties of session initialization\<close>

lemma initializeChat_result:
  "initializeChat env k tier history apiKey st =
     (case chatsCreate env (getApiKey env apiKey)
             (seededParams k tier (case history of Some h \<Rightarrow> h | None \<Rightarrow> [])) of
        Inr c \<Rightarrow>
          (Inr (),
           \<lparr>chatSession = Some c, currentTier = tier,
            calls = calls st @
              [ChatsCreate (getApiKey env apiKey)
                 (seededParams k tier (case history of Some h \<Rightarrow> h | None \<Rightarrow> []))]\<rparr>)
      | Inl e \<Rightarrow>
          (case chatsCreate env (getApiKey env apiKey) (fallbackParams k tier) of
             Inr c \<Rightarrow>
               (Inr (),
                \<lparr>chatSession = Some c, currentTier = tier,
                 calls = calls st @
                   [ChatsCreate (getApiKey env apiKey)
                      (seededParams k tier (case history of Some h \<Rightarrow> h | None \<Rightarrow> [])),
                    ChatsCreate (getApiKey env apiKey) (fallbackParams k tier)]\<rparr>)
           | Inl e' \<Rightarrow>
               (Inl e',
                \<lparr>chatSession = chatSession st, currentTier = tier,
                 calls = calls st @
                   [ChatsCreate (getApiKey env apiKey)
                      (seededParams k tier (case history of Some h \<Rightarrow> h | None \<Rightarrow> [])),
                    ChatsCreate (getApiKey env apiKey) (fallbackParams k tier)]\<rparr>)))"
  by (simp add: initializeChat_def Let_def logCall_def split: sum.splits)

text \<open>
  The outcomes of \<open>initializeChat\<close>, by the answers to its two \<open>create\<close> calls. When opening
  the context seeded with the given turns fails, it retries once, without history; when
  the retry succeeds, the session is the one of the retry. When the retry fails too, the
  error of the retry leaves the function and the session stays as it was.
\<close>

lemma initializeChat_retry_outcomes:
  assumes "initializeChat env k tier history apiKey st = (r, st')"
  shows "(r = Inr () \<longrightarrow> chatSession st' \<noteq> None) \<and>
         (\<forall>e. chatsCreate env (getApiKey env apiKey)
                 (seededParams k tier (case history of Some h \<Rightarrow> h | None \<Rightarrow> [])) = Inl e \<longrightarrow>
              newCalls st st' =
                [ChatsCreate (getApiKey env apiKey)
                   (seededParams k tier (case history of Some h \<Rightarrow> h | None \<Rightarrow> [])),
                 ChatsCreate (getApiKey env apiKey) (fallbackParams k tier)] \<and>
              cp_history (fallbackParams k tier) = None \<and>
              (\<forall>c. chatsCreate env (getApiKey env apiKey) (fallbackParams k tier) = Inr c \<longrightarrow>
                   r = Inr () \<and> chatSession st' = Some c) \<and>
              (\<forall>e'. chatsCreate env (getApiKey env apiKey) (fallbackParams k tier) = Inl e' \<longrightarrow>
                   r = Inl e' \<and> chatSession st' = chatSession st)) \<and>
         (\<forall>c. chatsCreate env (getApiKey env apiKey)
                 (seededParams k tier (case history of Some h \<Rightarrow> h | None \<Rightarrow> [])) = Inr c \<longrightarrow>
              r = Inr () \<and> chatSession st' = Some c)"
  using assms
  by (auto simp: initializeChat_result newCalls_def fallbackParams_def split: sum.splits)

lemma initializeChat_retry_recovers:
  "fst (initializeChat strictEnv exampleConstants Pro (Some [dummyModelTurn]) None
          freshState) = Inr () \<and>
   chatSession (snd (initializeChat strictEnv exampleConstants Pro (Some [dummyModelTurn])
          None freshState)) = Some (ChatRef 2) \<and>
   newCalls freshState (snd (initializeChat strictEnv exampleConstants Pro
          (Some [dummyModelTurn]) None freshState)) =
     [ChatsCreate [] (seededParams exampleConstants Pro [dummyModelTurn]),
      ChatsCreate [] (fallbackParams exampleConstants Pro)]"
proof -
  let ?run = "initializeChat strictEnv exampleConstants Pro (Some [dummyModelTurn]) None
                freshState"
  have key: "getApiKey strictEnv None = []"
    by (simp add: getApiKey_def strictEnv_def)
  have seeded: "chatsCreate strictEnv (getApiKey strictEnv None)
                  (seededParams exampleConstants Pro
                     (case Some [dummyModelTurn] of Some h \<Rightarrow> h | None \<Rightarrow> [])) =
                Inl (Error ''invalid history'')"
    by (simp add: strictEnv_def seededParams_def)
  have fallback: "chatsCreate strictEnv (getApiKey strictEnv None)
                    (fallbackParams exampleConstants Pro) = Inr (ChatRef 2)"
    by (simp add: strictEnv_def fallbackParams_def)
  have run: "?run = (fst ?run, snd ?run)" by simp
  from initializeChat_retry_outcomes [OF run] seeded fallback
  have "fst ?run = Inr () \<and> chatSession (snd ?run) = Some (ChatRef 2) \<and>
        newCalls freshState (snd ?run) =
          [ChatsCreate (getApiKey strictEnv None)
             (seededParams exampleConstants Pro
                (case Some [dummyModelTurn] of Some h \<Rightarrow> h | None \<Rightarrow> [])),
           ChatsCreate (getApiKey strictEnv None) (fallbackParams exampleConstants Pro)]"
    by blast
  then show ?thesis by (simp add: key)
qed

text \<open>
  C4. Session initialization is to hand no error to its caller and to leave a session
  behind, whatever happens. The code does so only while the retry succeeds. With remote
  services that refuse every call, on a module without a session, the retry in the
  \<open>catch\<close> block throws as the first attempt did: the error leaves \<open>initializeChat\<close> after
  the two \<open>create\<close> calls and there is still no session. \<open>startChatWithHistory\<close> then calls
  \<open>initializeChat\<close> a second time from its own \<open>catch\<close> block, four \<open>create\<close> calls in all,
  and lets the error through, and \<open>sendMessageToEve\<close>, which restores the session in
  front of its \<open>try\<close>, rejects.
\<close>

theorem initializeChat_error_escapes:
  "fst (initializeChat offlineEnv exampleConstants Free (Some []) None freshState) =
     Inl (Error ''offline'') \<and>
   chatSession (snd (initializeChat offlineEnv exampleConstants Free (Some []) None
     freshState)) = None \<and>
   newCalls freshState (snd (initializeChat offlineEnv exampleConstants Free (Some []) None
     freshState)) =
     [ChatsCreate [] (seededParams exampleConstants Free []),
      ChatsCreate [] (fallbackParams exampleConstants Free)] \<and>
   fst (startChatWithHistory offlineEnv exampleConstants Free exampleLog None freshState) =
     Inl (Error ''offline'') \<and>
   chatSession (snd (startChatWithHistory offlineEnv exampleConstants Free exampleLog None
     freshState)) = None \<and>
   length (newCalls freshState (snd (startChatWithHistory offlineEnv exampleConstants Free
     exampleLog None freshState))) = 4 \<and>
   fst (sendMessageToEve offlineEnv exampleConstants ''hi'' Free [] None False None None
     freshState) = Inl (Error ''offline'')"
proof -
  have key: "getApiKey offlineEnv None = []"
    by (simp add: getApiKey_def offlineEnv_def)
  have refuse: "chatsCreate offlineEnv key p = Inl (Error ''offline'')" for key p
    by (simp add: offlineEnv_def)
  have init: "initializeChat offlineEnv exampleConstants Free history None st =
      (Inl (Error ''offline''),
       \<lparr>chatSession = chatSession st, currentTier = Free,
        calls = calls st @
          [ChatsCreate [] (seededParams exampleConstants Free
                             (case history of Some h \<Rightarrow> h | None \<Rightarrow> [])),
           ChatsCreate [] (fallbackParams exampleConstants Free)]\<rparr>)" for history st
    by (simp add: initializeChat_result refuse key)
  have log: "exampleLog \<noteq> []" by (simp add: exampleLog_def)
  show ?thesis
    by (simp add: init log startChatWithHistory_def restoreSession_def sendMessageToEve_def
        newCalls_def freshState_def)
qed

lemma initializeChat_ok_session:
  "initializeChat env k tier history apiKey st = (Inr u, st') \<Longrightarrow> chatSession st' \<noteq> None"
  by (auto simp: initializeChat_result split: sum.splits)

lemma initializeChat_calls:
  "initializeChat env k tier history apiKey st = (r, st') \<Longrightarrow>
     \<exists>cs. calls st' = calls st @ cs \<and> List.map_filter routeOfCall cs = []"
  by (auto simp: initializeChat_result split: sum.splits)

lemma startChatWithHistory_ok_session:
  "startChatWithHistory env k tier history apiKey st = (Inr u, st') \<Longrightarrow>
     chatSession st' \<noteq> None"
  by (auto simp: startChatWithHistory_def split: if_splits prod.splits sum.splits
      dest: initializeChat_ok_session)

lemma startChatWithHistory_calls:
  assumes "startChatWithHistory env k tier history apiKey st = (r, st')"
  shows "\<exists>cs. calls st' = calls st @ cs \<and> List.map_filter routeOfCall cs = []"
proof (cases "length history = 0")
  case True
  with assms show ?thesis
    by (auto simp: startChatWithHistory_def dest: initializeChat_calls)
next
  case False
  obtain r1 st1 where i1:
    "initializeChat env k tier (Some (reconcileTurns history)) apiKey st = (r1, st1)"
    by (cases "initializeChat env k tier (Some (reconcileTurns history)) apiKey st")
  from initializeChat_calls [OF i1] obtain cs1 where
    c1: "calls st1 = calls st @ cs1" "List.map_filter routeOfCall cs1 = []" by blast
  show ?thesis
  proof (cases r1)
    case (Inr u)
    with assms False i1 have "st' = st1" by (simp add: startChatWithHistory_def)
    with c1 show ?thesis by blast
  next
    case (Inl e)
    with assms False i1 have "initializeChat env k tier (Some []) apiKey st1 = (r, st')"
      by (simp add: startChatWithHistory_def)
    from initializeChat_calls [OF this] obtain cs2 where
      "calls st' = calls st1 @ cs2" "List.map_filter routeOfCall cs2 = []" by blast
    with c1 have "calls st' = calls st @ (cs1 @ cs2) \<and>
        List.map_filter routeOfCall (cs1 @ cs2) = []"
      by (simp add: List.map_filter_def)
    then show ?thesis by blast
  qed
qed

lemma restoreSession_ok_session:
  "restoreSession env k tier history apiKey st = (Inr u, st') \<Longrightarrow> chatSession st' \<noteq> None"
  by (auto simp: restoreSession_def split: if_splits dest: startChatWithHistory_ok_session)

lemma restoreSession_calls:
  "restoreSession env k tier history apiKey st = (r, st') \<Longrightarrow>
     \<exists>cs. calls st' = calls st @ cs \<and> List.map_filter routeOfCall cs = []"
  by (auto simp: restoreSession_def split: if_splits dest: startChatWithHistory_calls)

section \<open>Properties of sending a message\<close>

lemma generateWithGradio_state:
  "snd (generateWithGradio env prompt endpoint aspectRatio st) =
     logCall (GradioCall prompt endpoint aspectRatio) st"
  by (simp add: generateWithGradio_def Let_def
      split: option.splits sum.splits list.splits GradioItem.splits)

lemma rephrasePromptForGradio_state:
  "snd (rephrasePromptForGradio env k userMessage tier apiKey st) =
     logCall (RephraseCall (getApiKey env apiKey) (chatModel (MODELS k tier)) userMessage) st"
  by (simp add: rephrasePromptForGradio_def Let_def split: option.splits sum.splits)

lemma routeImageEdit_state:
  "snd (routeImageEdit env k message tier inlinePart apiKey st) =
     logCall (ImageEditCall (getApiKey env apiKey) (imageModel (MODELS k tier))
                [inlinePart, TextPart message]) st"
  by (simp add: routeImageEdit_def Let_def split: sum.splits)

lemma routeImageGenerate_state:
  "snd (routeImageGenerate env k message tier apiKey gradioEndpoint st) =
     (if selfPortraitRequested message
      then logCall (GradioCall (personaPrompt k message) gradioEndpoint Portrait) st
      else logCall (GradioCall (fst (rephrasePromptForGradio env k message tier apiKey st))
                      gradioEndpoint Portrait)
             (logCall (RephraseCall (getApiKey env apiKey) (chatModel (MODELS k tier))
                         message) st))"
proof -
  have g: "\<And>p s f. snd (case generateWithGradio env p gradioEndpoint Portrait s of
                           (Inr imageUrl, st2) \<Rightarrow> (Inr (f imageUrl), st2)
                         | (Inl e, st2) \<Rightarrow>
                             (case e of
                                Error msg \<Rightarrow> (Inr (gradioErrorReply msg), st2)
                              | Thrown v \<Rightarrow>
                                  (Inl (Error ''Cannot read properties of undefined (reading 'includes')''),
                                   st2))) =
                      snd (generateWithGradio env p gradioEndpoint Portrait s)"
    by (simp split: prod.splits sum.splits JsError.splits)
  show ?thesis
  proof (cases "selfPortraitRequested message")
    case True
    then show ?thesis
      unfolding routeImageGenerate_def Let_def
      by (simp add: g generateWithGradio_state)
  next
    case False
    obtain p s where ps: "rephrasePromptForGradio env k message tier apiKey st = (p, s)"
      by (cases "rephrasePromptForGradio env k message tier apiKey st")
    with rephrasePromptForGradio_state [of env k message tier apiKey st]
    have s: "s = logCall (RephraseCall (getApiKey env apiKey) (chatModel (MODELS k tier))
                          message) st"
      by simp
    from False show ?thesis
      unfolding routeImageGenerate_def Let_def ps
      by (simp add: g generateWithGradio_state s)
  qed
qed

lemma map_filter_routes_append:
  "List.map_filter routeOfCall cs = [] \<Longrightarrow>
     List.map_filter routeOfCall (cs @ evs) = List.map_filter routeOfCall evs"
  by (simp add: List.map_filter_def)

lemma routeChat_active:
  "chatSession st = Some c \<Longrightarrow>
     routeChat env k msgContent tier apiKey gradioEndpoint st =
       (case chatSendMessage env c msgContent of
          Inl e \<Rightarrow> (Inl e, logCall (ChatSend c msgContent) st)
        | Inr result \<Rightarrow>
            (Inr (visualTrigger (case result of Some t \<Rightarrow> t | None \<Rightarrow> []) gradioEndpoint),
             logCall (ChatSend c msgContent) st))"
  by (simp add: routeChat_def Let_def)

lemma sendMessageToEve_restored:
  assumes "restoreSession env k tier history apiKey st = (Inr (), st1)"
  shows "snd (sendMessageToEve env k message tier history attachment
                forceImageGeneration apiKey gradioEndpoint st) =
           (if truthyOpt attachment \<and> forceImageGeneration
            then snd (routeImageEdit env k message tier (attachmentPart attachment)
                        apiKey st1)
            else if \<not> truthyOpt attachment \<and> forceImageGeneration
            then snd (routeImageGenerate env k message tier apiKey gradioEndpoint st1)
            else snd (routeChat env k (messageContent message attachment) tier apiKey
                        gradioEndpoint st1))"
  using assms by (simp add: sendMessageToEve_def split: prod.splits sum.splits)

lemma newCalls_logCall: "newCalls st (logCall e st) = [e]"
  by (simp add: newCalls_def logCall_def)

lemma newCalls_logCall2: "newCalls st (logCall e' (logCall e st)) = [e, e']"
  by (simp add: newCalls_def logCall_def)

lemma restoreSession_live_fresh:
  "restoreSession liveEnv exampleConstants Free [] None freshState =
     (Inr (), \<lparr>chatSession = Some (ChatRef 1), currentTier = Free,
               calls = [ChatsCreate ''key'' (seededParams exampleConstants Free [])]\<rparr>)"
  by (simp add: restoreSession_def freshState_def startChatWithHistory_def
      initializeChat_result liveEnv_def getApiKey_def truthy_def)

lemma restoreSession_active:
  "restoreSession env k Free history apiKey activeState = (Inr (), activeState)"
  by (simp add: restoreSession_def activeState_def)

text \<open>
  C10. On the generation route (explicit intent, no attachment), when the lower-cased
  instruction contains \<open>selfie\<close> or \<open>you\<close>, no rewrite call is issued and the prompt handed
  to the image backend is the persona template around the instruction as typed; for any
  other instruction the rewrite call is issued first, with the instruction, and its
  result is the prompt.
\<close>

theorem selfPortrait_skips_rewrite:
  assumes "restoreSession env k tier history apiKey st = (Inr (), st1)"
    and "\<not> truthyOpt attachment" and "forceImageGeneration"
    and "sendMessageToEve env k message tier history attachment forceImageGeneration
           apiKey gradioEndpoint st = (r, st')"
  shows "(if includesStr (toLowerCase message) ''selfie'' \<or>
             includesStr (toLowerCase message) ''you''
          then newCalls st1 st' =
                 [GradioCall (''Subject: '' @ EVE_APPEARANCE k @ ''. Action: '' @ message @
                                ''. Style: Photorealistic, 8k.'') gradioEndpoint Portrait]
          else newCalls st1 st' =
                 [RephraseCall (getApiKey env apiKey) (chatModel (MODELS k tier)) message,
                  GradioCall (fst (rephrasePromptForGradio env k message tier apiKey st1))
                    gradioEndpoint Portrait])"
proof -
  have "st' = snd (routeImageGenerate env k message tier apiKey gradioEndpoint st1)"
    using sendMessageToEve_restored [OF assms(1), of message attachment
        forceImageGeneration gradioEndpoint] assms(2-4)
    by simp
  then show ?thesis
    by (simp add: routeImageGenerate_state selfPortraitRequested_def personaPrompt_def
        newCalls_logCall newCalls_logCall2)
qed

theorem selfPortrait_skips_rewrite_witness:
  "newCalls activeState
     (snd (sendMessageToEve liveEnv exampleConstants ''Send me a SELFIE'' Free [] None True
             None (Some ''https://example.org/space'') activeState)) =
     [GradioCall
        ''Subject: a woman with silver hair. Action: Send me a SELFIE. Style: Photorealistic, 8k.''
        (Some ''https://example.org/space'') Portrait] \<and>
   newCalls activeState
     (snd (sendMessageToEve liveEnv exampleConstants ''a castle'' Free [] None True
             None (Some ''https://example.org/space'') activeState)) =
     [RephraseCall ''key'' ''chat-model'' ''a castle'',
      GradioCall ''a castle, oil painting'' (Some ''https://example.org/space'') Portrait]"
proof -
  have pair: "\<And>x :: (JsError + Reply) \<times> ServiceState. x = (fst x, snd x)" by simp
  have att: "\<not> truthyOpt None" by (simp add: truthyOpt_def)
  have force: "True" by simp
  have s1: "includesStr (toLowerCase ''Send me a SELFIE'') ''selfie''" by code_simp
  have s2: "\<not> (includesStr (toLowerCase ''a castle'') ''selfie'' \<or>
               includesStr (toLowerCase ''a castle'') ''you'')" by code_simp
  have key: "getApiKey liveEnv None = ''key''"
    by (simp add: getApiKey_def liveEnv_def truthy_def)
  have names: "EVE_APPEARANCE exampleConstants = ''a woman with silver hair''"
    "chatModel (MODELS exampleConstants Free) = ''chat-model''"
    by (simp_all add: exampleConstants_def)
  have rewritten: "fst (rephrasePromptForGradio liveEnv exampleConstants ''a castle'' Free
                     None activeState) = ''a castle, oil painting''"
    by (simp add: rephrasePromptForGradio_def Let_def liveEnv_def)
       (simp add: trim_def isWhiteSpace_def truthy_def)
  from selfPortrait_skips_rewrite [OF restoreSession_active att force pair,
      where env = liveEnv and k = exampleConstants and message = "''Send me a SELFIE''"
        and history = "[]" and apiKey = None
        and gradioEndpoint = "Some ''https://example.org/space''"]
    selfPortrait_skips_rewrite [OF restoreSession_active att force pair,
      where env = liveEnv and k = exampleConstants and message = "''a castle''"
        and history = "[]" and apiKey = None
        and gradioEndpoint = "Some ''https://example.org/space''"]
  show ?thesis
    unfolding if_P [OF disjI1 [OF s1]] if_not_P [OF s2] key names rewritten
    by simp
qed

text \<open>
  C9. When the session is in place and the \<open>sendMessage\<close> call of a chat turn throws, the
  caller gets one reply: the fixed apology, flagged as an error, with the text of the
  thrown value, without image and without visual cue. The session and the tier are those
  in place before the call; when no restore was needed they are those of the state the
  operation started in.
\<close>

theorem chat_failure_gives_apology:
  assumes "restoreSession env k tier history apiKey st = (Inr (), st1)"
    and "\<not> forceImageGeneration"
    and "chatSession st1 = Some c"
    and "chatSendMessage env c (messageContent message attachment) = Inl error"
    and "sendMessageToEve env k message tier history attachment forceImageGeneration
           apiKey gradioEndpoint st = (r, st')"
  shows "r = Inr \<lparr>r_text = ''Connection interrupted. I'm still here, though.'',
                  r_image = None, r_visualPrompt = None, r_isError = Some True,
                  r_errorMessage = Some (errorText error)\<rparr> \<and>
         chatSession st' = chatSession st1 \<and> currentTier st' = currentTier st1 \<and>
         newCalls st1 st' = [ChatSend c (messageContent message attachment)] \<and>
         (if chatSession st = None \<or> currentTier st \<noteq> tier then True
          else chatSession st' = chatSession st \<and> currentTier st' = currentTier st)"
proof -
  have "sendMessageToEve env k message tier history attachment forceImageGeneration
          apiKey gradioEndpoint st =
        (Inr (interruptedReply error),
         logCall (ChatSend c (messageContent message attachment)) st1)"
    using assms(1-4) by (simp add: sendMessageToEve_def routeChat_active)
  with assms(5) have r: "r = Inr (interruptedReply error)"
    and st': "st' = logCall (ChatSend c (messageContent message attachment)) st1"
    by simp_all
  have same: "\<not> (chatSession st = None \<or> currentTier st \<noteq> tier) \<Longrightarrow> st1 = st"
    using assms(1) by (cases "chatSession st") (simp_all add: restoreSession_def)
  have "newCalls st1 st' = [ChatSend c (messageContent message attachment)]"
    by (simp add: st' newCalls_logCall)
  moreover have "chatSession st' = chatSession st1 \<and> currentTier st' = currentTier st1"
    by (simp add: st' logCall_def)
  ultimately show ?thesis
    using same by (auto simp: r interruptedReply_def)
qed

theorem chat_failure_gives_apology_witness:
  "fst (sendMessageToEve strictEnv exampleConstants ''hi'' Free [] None False None None
          activeState) =
     Inr \<lparr>r_text = ''Connection interrupted. I'm still here, though.'', r_image = None,
          r_visualPrompt = None, r_isError = Some True, r_errorMessage = Some ''timeout''\<rparr> \<and>
   chatSession (snd (sendMessageToEve strictEnv exampleConstants ''hi'' Free [] None False
          None None activeState)) = Some (ChatRef 7) \<and>
   currentTier (snd (sendMessageToEve strictEnv exampleConstants ''hi'' Free [] None False
          None None activeState)) = Free"
proof -
  let ?run = "sendMessageToEve strictEnv exampleConstants ''hi'' Free [] None False None
                None activeState"
  have run: "?run = (fst ?run, snd ?run)" by simp
  have force: "\<not> False" by simp
  have session: "chatSession activeState = Some (ChatRef 7)"
    by (simp add: activeState_def)
  have thrown: "chatSendMessage strictEnv (ChatRef 7) (messageContent ''hi'' None) =
                  Inl (Error ''timeout'')"
    by (simp add: strictEnv_def)
  have msg: "errorText (Error ''timeout'') = ''timeout''" by (simp add: errorText_def)
  from chat_failure_gives_apology [OF restoreSession_active force session thrown run]
  show ?thesis by (simp add: msg activeState_def)
qed

text \<open>
  C2. The calls issued by \<open>sendMessageToEve\<close> never belong to a route other than the one of
  the decision table; once the session is in place they belong to exactly that route.
  With an attachment and intent the single call is the image-editing request, whose parts
  are the attachment as inline data (its MIME type, its data without the data-URL prefix)
  and the text. With intent and no attachment the calls go to the generation route.
  Without intent the single call is \<open>sendMessage\<close> on the session: its content is the
  attachment as inline data followed by the text when there is an attachment, and the
  text alone otherwise.
\<close>

theorem route_matches_decision_table:
  assumes "sendMessageToEve env k message tier history attachment forceImageGeneration
             apiKey gradioEndpoint st = (r, st')"
  shows "routesTaken st st' \<subseteq> {decisionTable (truthyOpt attachment) forceImageGeneration} \<and>
         (\<forall>st1. restoreSession env k tier history apiKey st = (Inr (), st1) \<longrightarrow>
            routesTaken st st' =
              {decisionTable (truthyOpt attachment) forceImageGeneration} \<and>
            chatSession st1 \<noteq> None \<and>
            (\<forall>a. attachment = Some a \<and> truthy a \<and> forceImageGeneration \<longrightarrow>
               newCalls st1 st' =
                 [ImageEditCall (getApiKey env apiKey) (imageModel (MODELS k tier))
                    [InlineData (getMimeType a) (stripDataImagePrefix a),
                     TextPart message]]) \<and>
            (\<forall>a c. attachment = Some a \<and> truthy a \<and> \<not> forceImageGeneration \<and>
                   chatSession st1 = Some c \<longrightarrow>
               newCalls st1 st' =
                 [ChatSend c (Multipart [InlineData (getMimeType a) (stripDataImagePrefix a),
                                         TextPart message])]) \<and>
            (\<forall>c. \<not> truthyOpt attachment \<and> \<not> forceImageGeneration \<and>
                 chatSession st1 = Some c \<longrightarrow>
               newCalls st1 st' = [ChatSend c (Plain message)]))"
proof -
  obtain r0 st0 where rs: "restoreSession env k tier history apiKey st = (r0, st0)"
    by (cases "restoreSession env k tier history apiKey st")
  from restoreSession_calls [OF rs] obtain cs where
    cs: "calls st0 = calls st @ cs" "List.map_filter routeOfCall cs = []" by blast
  show ?thesis
  proof (cases r0)
    case (Inl e)
    with rs assms have "st' = st0" by (simp add: sendMessageToEve_def)
    with cs rs Inl show ?thesis by (simp add: routesTaken_def newCalls_def)
  next
    case (Inr u)
    with rs have rs1: "restoreSession env k tier history apiKey st = (Inr (), st0)" by simp
    from restoreSession_ok_session [OF rs1] obtain c where c: "chatSession st0 = Some c"
      by blast
    have st': "st' = (if truthyOpt attachment \<and> forceImageGeneration
            then snd (routeImageEdit env k message tier (attachmentPart attachment)
                        apiKey st0)
            else if \<not> truthyOpt attachment \<and> forceImageGeneration
            then snd (routeImageGenerate env k message tier apiKey gradioEndpoint st0)
            else snd (routeChat env k (messageContent message attachment) tier apiKey
                        gradioEndpoint st0))"
      using sendMessageToEve_restored [OF rs1, of message attachment
          forceImageGeneration gradioEndpoint] assms by simp
    have chat: "snd (routeChat env k content tier apiKey gradioEndpoint st0) =
                logCall (ChatSend c content) st0" for content
      by (simp add: routeChat_active [OF c] split: sum.splits)
    have split: "\<And>x. newCalls st (logCall x st0) = cs @ [x]"
      "\<And>x y. newCalls st (logCall y (logCall x st0)) = cs @ [x, y]"
      using cs(1) by (simp_all add: newCalls_def logCall_def)
    have routes: "routesTaken st st' =
        {decisionTable (truthyOpt attachment) forceImageGeneration}"
      unfolding routesTaken_def st'
      by (simp add: routeImageEdit_state routeImageGenerate_state chat split
          decisionTable_def map_filter_routes_append [OF cs(2)] List.map_filter_simps)
    have edit: "newCalls st0 st' =
        [ImageEditCall (getApiKey env apiKey) (imageModel (MODELS k tier))
           [InlineData (getMimeType a) (stripDataImagePrefix a), TextPart message]]"
      if "attachment = Some a" "truthy a" "forceImageGeneration" for a
      unfolding st' using that
      by (simp add: routeImageEdit_state newCalls_logCall truthyOpt_def attachmentPart_def)
    have vision: "newCalls st0 st' =
        [ChatSend c (Multipart [InlineData (getMimeType a) (stripDataImagePrefix a),
                                TextPart message])]"
      if "attachment = Some a" "truthy a" "\<not> forceImageGeneration" for a
      unfolding st' using that
      by (simp add: chat newCalls_logCall truthyOpt_def attachmentPart_def
          messageContent_def)
    have plain: "newCalls st0 st' = [ChatSend c (Plain message)]"
      if "\<not> truthyOpt attachment" "\<not> forceImageGeneration"
      unfolding st' using that by (simp add: chat newCalls_logCall messageContent_def)
    show ?thesis
      using routes rs1 c edit vision plain by auto
  qed
qed

lemma restoreSession_live_fresh_snd:
  "restoreSession liveEnv exampleConstants Free [] None freshState =
     (Inr (), snd (restoreSession liveEnv exampleConstants Free [] None freshState))"
  by (simp add: restoreSession_live_fresh)

theorem route_matches_decision_table_witness:
  "routesTaken freshState
     (snd (sendMessageToEve liveEnv exampleConstants ''make it darker'' Free []
             (Some ''data:image/png;base64,QUJD'') True None
             (Some ''https://example.org/space'') freshState)) = {IMAGE_EDIT} \<and>
   routesTaken freshState
     (snd (sendMessageToEve liveEnv exampleConstants ''a castle'' Free []
             None True None (Some ''https://example.org/space'') freshState)) =
     {IMAGE_GENERATE} \<and>
   routesTaken freshState
     (snd (sendMessageToEve liveEnv exampleConstants ''what is this?'' Free []
             (Some ''data:image/png;base64,QUJD'') False None
             (Some ''https://example.org/space'') freshState)) = {CHAT} \<and>
   routesTaken freshState
     (snd (sendMessageToEve liveEnv exampleConstants ''hi'' Free []
             None False None (Some ''https://example.org/space'') freshState)) = {CHAT} \<and>
   newCalls (snd (restoreSession liveEnv exampleConstants Free [] None freshState))
     (snd (sendMessageToEve liveEnv exampleConstants ''make it darker'' Free []
             (Some ''data:image/png;base64,QUJD'') True None
             (Some ''https://example.org/space'') freshState)) =
     [ImageEditCall ''key'' ''image-model''
        [InlineData ''image/png'' ''QUJD'', TextPart ''make it darker'']] \<and>
   newCalls (snd (restoreSession liveEnv exampleConstants Free [] None freshState))
     (snd (sendMessageToEve liveEnv exampleConstants ''what is this?'' Free []
             (Some ''data:image/png;base64,QUJD'') False None
             (Some ''https://example.org/space'') freshState)) =
     [ChatSend (ChatRef 1)
        (Multipart [InlineData ''image/png'' ''QUJD'', TextPart ''what is this?''])] \<and>
   newCalls (snd (restoreSession liveEnv exampleConstants Free [] None freshState))
     (snd (sendMessageToEve liveEnv exampleConstants ''hi'' Free []
             None False None (Some ''https://example.org/space'') freshState)) =
     [ChatSend (ChatRef 1) (Plain ''hi'')]"
proof -
  have pair: "\<And>x :: (JsError + Reply) \<times> ServiceState. x = (fst x, snd x)" by simp
  have t1: "decisionTable (truthyOpt (Some ''data:image/png;base64,QUJD'')) True = IMAGE_EDIT"
    by (simp add: decisionTable_def truthyOpt_def truthy_def)
  have t2: "decisionTable (truthyOpt None) True = IMAGE_GENERATE"
    by (simp add: decisionTable_def truthyOpt_def)
  have t3: "decisionTable (truthyOpt (Some ''data:image/png;base64,QUJD'')) False = CHAT"
    by (simp add: decisionTable_def)
  have t4: "decisionTable (truthyOpt None) False = CHAT"
    by (simp add: decisionTable_def)
  have att: "truthy ''data:image/png;base64,QUJD''" by (simp add: truthy_def)
  have none: "\<not> truthyOpt None" by (simp add: truthyOpt_def)
  have mime: "getMimeType ''data:image/png;base64,QUJD'' = ''image/png''" by code_simp
  have payload: "stripDataImagePrefix ''data:image/png;base64,QUJD'' = ''QUJD''"
    by code_simp
  have key: "getApiKey liveEnv None = ''key''"
    by (simp add: getApiKey_def liveEnv_def truthy_def)
  have model: "imageModel (MODELS exampleConstants Free) = ''image-model''"
    by (simp add: exampleConstants_def)
  have session: "chatSession (snd (restoreSession liveEnv exampleConstants Free [] None
                   freshState)) = Some (ChatRef 1)"
    by (simp add: restoreSession_live_fresh)
  note r1 = route_matches_decision_table [OF pair, where env = liveEnv
        and k = exampleConstants and message = "''make it darker''" and tier = Free
        and history = "[]" and attachment = "Some ''data:image/png;base64,QUJD''"
        and forceImageGeneration = True and apiKey = None
        and gradioEndpoint = "Some ''https://example.org/space''" and st = freshState]
  note r2 = route_matches_decision_table [OF pair, where env = liveEnv
        and k = exampleConstants and message = "''a castle''" and tier = Free
        and history = "[]" and attachment = None
        and forceImageGeneration = True and apiKey = None
        and gradioEndpoint = "Some ''https://example.org/space''" and st = freshState]
  note r3 = route_matches_decision_table [OF pair, where env = liveEnv
        and k = exampleConstants and message = "''what is this?''" and tier = Free
        and history = "[]" and attachment = "Some ''data:image/png;base64,QUJD''"
        and forceImageGeneration = False and apiKey = None
        and gradioEndpoint = "Some ''https://example.org/space''" and st = freshState]
  note r4 = route_matches_decision_table [OF pair, where env = liveEnv
        and k = exampleConstants and message = "''hi''" and tier = Free
        and history = "[]" and attachment = None
        and forceImageGeneration = False and apiKey = None
        and gradioEndpoint = "Some ''https://example.org/space''" and st = freshState]
  note restored = restoreSession_live_fresh_snd
  note c1 = r1 [THEN conjunct2, THEN spec, THEN mp, OF restored]
  note c2 = r2 [THEN conjunct2, THEN spec, THEN mp, OF restored]
  note c3 = r3 [THEN conjunct2, THEN spec, THEN mp, OF restored]
  note c4 = r4 [THEN conjunct2, THEN spec, THEN mp, OF restored]
  note e1 = c1 [THEN conjunct1]
  note e2 = c2 [THEN conjunct1]
  note e3 = c3 [THEN conjunct1]
  note e4 = c4 [THEN conjunct1]
  have n1: "newCalls (snd (restoreSession liveEnv exampleConstants Free [] None freshState))
     (snd (sendMessageToEve liveEnv exampleConstants ''make it darker'' Free []
             (Some ''data:image/png;base64,QUJD'') True None
             (Some ''https://example.org/space'') freshState)) =
     [ImageEditCall ''key'' ''image-model''
        [InlineData ''image/png'' ''QUJD'', TextPart ''make it darker'']]"
    using c1 [THEN conjunct2, THEN conjunct2, THEN conjunct1, THEN spec,
        of "''data:image/png;base64,QUJD''"] att
    by (simp add: mime payload key model)
  have n3: "newCalls (snd (restoreSession liveEnv exampleConstants Free [] None freshState))
     (snd (sendMessageToEve liveEnv exampleConstants ''what is this?'' Free []
             (Some ''data:image/png;base64,QUJD'') False None
             (Some ''https://example.org/space'') freshState)) =
     [ChatSend (ChatRef 1)
        (Multipart [InlineData ''image/png'' ''QUJD'', TextPart ''what is this?''])]"
    using c3 [THEN conjunct2, THEN conjunct2, THEN conjunct2, THEN conjunct1, THEN spec,
        THEN spec, of "''data:image/png;base64,QUJD''" "ChatRef 1"] att session
    by (simp add: mime payload)
  have n4: "newCalls (snd (restoreSession liveEnv exampleConstants Free [] None freshState))
     (snd (sendMessageToEve liveEnv exampleConstants ''hi'' Free []
             None False None (Some ''https://example.org/space'') freshState)) =
     [ChatSend (ChatRef 1) (Plain ''hi'')]"
    using c4 [THEN conjunct2, THEN conjunct2, THEN conjunct2, THEN conjunct2, THEN spec,
        of "ChatRef 1"] none session
    by simp
  from e1 e2 e3 e4 n1 n3 n4 show ?thesis
    unfolding t1 t2 t3 t4 by (intro conjI)
qed

end
